theory Spec2Isabelle
  imports Complex_Main "HOL-Library.AList"
begin

section \<open>Data model\<close>

text \<open>
  The backend keeps three collections (users, jobs, feedback) in a document database and
  publishes notifications over a socket server. Documents are records, a collection is the
  list of its documents in insertion order, an ObjectId is a natural number and a Date is
  its number of milliseconds since the epoch. JavaScript numbers are modelled by exact
  integers and reals: the model covers the values on which the double arithmetic of
  the source is exact (counts, page numbers and ratings far below \<open>2^53\<close>). A string is
  the list of the bytes of its UTF-8 encoding.
\<close>

type_synonym oid = nat
type_synonym time = int

text \<open>Modelled from the spec: the User schema, whose file \<^verbatim>\<open>models/User.js\<close> is not
  among the sources: "identity, display name, email (unique), credential hash, role
  (applicant|admin), active flag, timestamps".\<close>

record user =
  u_id :: oid
  u_name :: string
  u_email :: string
  u_password :: string
  u_role :: string
  u_isActive :: bool
  u_createdAt :: time
  u_updatedAt :: time

text \<open>\<^verbatim>\<open>jobSchema\<close>, with the two fields of \<^verbatim>\<open>timestamps: true\<close>.\<close>

record job =
  j_id :: oid
  j_user :: oid
  j_company :: string
  j_position :: string
  j_status :: string
  j_appliedDate :: time
  j_notes :: "string option"
  j_salary :: "int option"
  j_location :: "string option"
  j_jobUrl :: "string option"
  j_createdAt :: time
  j_updatedAt :: time

text \<open>\<^verbatim>\<open>feedbackSchema\<close>, with the two fields of \<^verbatim>\<open>timestamps: true\<close>.\<close>

record feedback =
  f_id :: oid
  f_name :: "string option"
  f_email :: "string option"
  f_feedback :: string
  f_rating :: int
  f_category :: string
  f_isPublic :: bool
  f_status :: string
  f_createdAt :: time
  f_updatedAt :: time

text \<open>The notifications the handlers publish: the event name and room are functions of the
  constructor, the arguments are the payload (message, record, user name, statuses,
  timestamp).\<close>

datatype event =
    JobCreated string job string
  | JobStatusUpdated string job string string string
  | JobDeleted string job string
  | NewFeedback string feedback time

fun event_name :: "event \<Rightarrow> string" where
  "event_name (JobCreated _ _ _) = ''job-created''"
| "event_name (JobStatusUpdated _ _ _ _ _) = ''job-status-updated''"
| "event_name (JobDeleted _ _ _) = ''job-deleted''"
| "event_name (NewFeedback _ _ _) = ''new-feedback''"

fun event_room :: "event \<Rightarrow> string option" where
  "event_room (NewFeedback _ _ _) = Some ''admin-room''"
| "event_room _ = None"

text \<open>What a request reads from outside the repository: the clock, the validator
  library (\<^verbatim>\<open>isISO8601\<close>, \<^verbatim>\<open>isEmail\<close>, \<^verbatim>\<open>normalizeEmail\<close>), the database's
  casts and setters (string to Date, the schema's email pattern, \<^verbatim>\<open>lowercase\<close>), its
  regular expressions (\<open>regexValid r\<close>: the pattern \<open>r\<close> compiles; \<open>regexTest r t\<close>: it
  matches \<open>t\<close>, ignoring case) and its judgement of a sort key (\<open>sortable k\<close>: the field
  name \<open>k\<close> is accepted in a sort), and the socket server, whose \<^verbatim>\<open>emit\<close> either returns
  (\<open>True\<close>) or throws (\<open>False\<close>).\<close>

record env =
  now :: time
  isISO8601 :: "string \<Rightarrow> bool"
  castDate :: "string \<Rightarrow> time option"
  isEmail :: "string \<Rightarrow> bool"
  normalizeEmail :: "string \<Rightarrow> string"
  emailMatch :: "string \<Rightarrow> bool"
  toLowerCase :: "string \<Rightarrow> string"
  regexValid :: "string \<Rightarrow> bool"
  regexTest :: "string \<Rightarrow> string \<Rightarrow> bool"
  sortable :: "string \<Rightarrow> bool"
  publish :: "event \<Rightarrow> bool"

record state =
  users :: "user list"
  jobs :: "job list"
  feedbacks :: "feedback list"
  nextId :: oid
  emitted :: "event list"

text \<open>The error taxonomy of the handlers and the JSON envelopes they return.\<close>

datatype error =
    ValidationFailed "string list"
  | BadRequest string
  | NotFound string
  | ServerError string

fun http_status :: "error \<Rightarrow> nat" where
  "http_status (ValidationFailed _) = 400"
| "http_status (BadRequest _) = 400"
| "http_status (NotFound _) = 404"
| "http_status (ServerError _) = 500"

record 'a reply =
  code :: nat
  message :: "string option"
  payload :: 'a

record 'a page_envelope =
  r_count :: nat
  r_total :: nat
  r_page :: int
  r_pages :: "int option"
  r_data :: "'a list"

section \<open>Request validation (middleware/validation.js)\<close>

text \<open>The white space of JavaScript, which \<^verbatim>\<open>trim()\<close> of the validator and
  \<^verbatim>\<open>trim: true\<close> of a schema strip: the characters U+0009 to U+000D, U+0020, U+00A0,
  U+1680, U+2000 to U+200A, U+2028, U+2029, U+202F, U+205F, U+3000 and U+FEFF, each as
  the bytes of its encoding.\<close>

definition js_whitespace :: "string list" where
  "js_whitespace =
     [[CHR 0x09], [CHR 0x0A], [CHR 0x0B], [CHR 0x0C], [CHR 0x0D], [CHR 0x20],
      [CHR 0xC2, CHR 0xA0], [CHR 0xE1, CHR 0x9A, CHR 0x80],
      [CHR 0xE2, CHR 0x80, CHR 0x80], [CHR 0xE2, CHR 0x80, CHR 0x81],
      [CHR 0xE2, CHR 0x80, CHR 0x82], [CHR 0xE2, CHR 0x80, CHR 0x83],
      [CHR 0xE2, CHR 0x80, CHR 0x84], [CHR 0xE2, CHR 0x80, CHR 0x85],
      [CHR 0xE2, CHR 0x80, CHR 0x86], [CHR 0xE2, CHR 0x80, CHR 0x87],
      [CHR 0xE2, CHR 0x80, CHR 0x88], [CHR 0xE2, CHR 0x80, CHR 0x89],
      [CHR 0xE2, CHR 0x80, CHR 0x8A], [CHR 0xE2, CHR 0x80, CHR 0xA8],
      [CHR 0xE2, CHR 0x80, CHR 0xA9], [CHR 0xE2, CHR 0x80, CHR 0xAF],
      [CHR 0xE2, CHR 0x81, CHR 0x9F], [CHR 0xE3, CHR 0x80, CHR 0x80],
      [CHR 0xEF, CHR 0xBB, CHR 0xBF]]"

text \<open>\<open>strip ws n s\<close> removes from the front of \<open>s\<close> up to \<open>n\<close> of the byte sequences in
  \<open>ws\<close>; a string has no more of them than it has bytes. Trimming strips the white
  space from the front, and, read backwards, from the end.\<close>

fun strip :: "string list \<Rightarrow> nat \<Rightarrow> string \<Rightarrow> string" where
  "strip ws 0 s = s"
| "strip ws (Suc n) s =
     (case find (\<lambda>w. take (length w) s = w) ws of
        None \<Rightarrow> s
      | Some w \<Rightarrow> strip ws n (drop (length w) s))"

definition trim :: "string \<Rightarrow> string" where
  "trim s =
     rev (strip (map rev js_whitespace) (length s) (rev (strip js_whitespace (length s) s)))"

text \<open>An absent field reaches a validator as the empty string.\<close>

definition str_of :: "string option \<Rightarrow> string" where
  "str_of v = (case v of None \<Rightarrow> [] | Some s \<Rightarrow> s)"

definition isLength :: "nat \<Rightarrow> nat \<Rightarrow> string \<Rightarrow> bool" where
  "isLength lo hi s = (lo \<le> length s \<and> length s \<le> hi)"

definition job_statuses :: "string list" where
  "job_statuses = [''applied'', ''interview'', ''offer'', ''rejected'', ''accepted'']"

text \<open>The body of a job request: the schema's fields other than the owner, each present
  or absent. A salary is an integer, on which the rule \<^verbatim>\<open>optional().isNumeric()\<close> holds.\<close>

record job_body =
  b_company :: "string option"
  b_position :: "string option"
  b_status :: "string option"
  b_appliedDate :: "string option"
  b_notes :: "string option"
  b_salary :: "int option"
  b_location :: "string option"
  b_jobUrl :: "string option"

text \<open>\<^verbatim>\<open>jobValidation\<close> followed by \<^verbatim>\<open>validationResult\<close>: the messages of all the
  rules that fail, in the order of the chain. Only \<^verbatim>\<open>status\<close>, \<^verbatim>\<open>notes\<close> and
  \<^verbatim>\<open>salary\<close> are \<^verbatim>\<open>optional()\<close>; the rule of \<^verbatim>\<open>appliedDate\<close> is not, and the
  empty string an absent field stands for is no ISO 8601 date.\<close>

definition jobValidation :: "env \<Rightarrow> job_body \<Rightarrow> string list" where
  "jobValidation e b =
     (if isLength 1 100 (trim (str_of (b_company b))) then []
      else [''Company name is required and must not exceed 100 characters''])
   @ (if isLength 1 100 (trim (str_of (b_position b))) then []
      else [''Position is required and must not exceed 100 characters''])
   @ (case b_status b of None \<Rightarrow> []
      | Some v \<Rightarrow> if v \<in> set job_statuses then [] else [''Invalid status''])
   @ (case b_appliedDate b of None \<Rightarrow> [''Please provide a valid date'']
      | Some d \<Rightarrow> if isISO8601 e d then [] else [''Please provide a valid date''])
   @ (case b_notes b of None \<Rightarrow> []
      | Some n \<Rightarrow> if isLength 0 500 n then [] else [''Notes cannot exceed 500 characters''])"

text \<open>The sanitizers of the chain (\<^verbatim>\<open>trim()\<close>) write their result back to the body.\<close>

definition jobSanitized :: "job_body \<Rightarrow> job_body" where
  "jobSanitized b = b\<lparr>b_company := Some (trim (str_of (b_company b))),
                      b_position := Some (trim (str_of (b_position b)))\<rparr>"

section \<open>The Job model (jobSchema)\<close>

definition required_max :: "nat \<Rightarrow> string \<Rightarrow> bool" where
  "required_max n s = (s \<noteq> [] \<and> length s \<le> n)"

definition opt_ok :: "('a \<Rightarrow> bool) \<Rightarrow> 'a option \<Rightarrow> bool" where
  "opt_ok P v = (case v of None \<Rightarrow> True | Some x \<Rightarrow> P x)"

text \<open>The validators of the schema's paths on a document.\<close>

definition Job_valid :: "job \<Rightarrow> bool" where
  "Job_valid j =
     (required_max 100 (j_company j) \<and> required_max 100 (j_position j)
      \<and> j_status j \<in> set job_statuses
      \<and> opt_ok (\<lambda>n. length n \<le> 500) (j_notes j)
      \<and> opt_ok (\<lambda>n. 0 \<le> n) (j_salary j)
      \<and> opt_ok (\<lambda>l. length l \<le> 100) (j_location j))"

text \<open>\<^verbatim>\<open>Job.create(jobData)\<close>: the document is built with the schema's setters, casts and
  defaults (\<^verbatim>\<open>status: 'applied'\<close>, \<^verbatim>\<open>appliedDate: Date.now\<close>), validated and inserted.
  \<open>None\<close> is the exception of a failed cast, an absent required path or a failed
  validator; nothing is inserted then.\<close>

definition Job_doc :: "env \<Rightarrow> oid \<Rightarrow> job_body \<Rightarrow> state \<Rightarrow> job option" where
  "Job_doc e uid b s =
     (case (b_company b, b_position b) of
        (Some c, Some p) \<Rightarrow>
          (case (case b_appliedDate b of None \<Rightarrow> Some (now e) | Some d \<Rightarrow> castDate e d) of
             None \<Rightarrow> None
           | Some t \<Rightarrow>
               Some \<lparr>j_id = nextId s, j_user = uid, j_company = trim c, j_position = trim p,
                     j_status = (case b_status b of None \<Rightarrow> ''applied'' | Some v \<Rightarrow> v),
                     j_appliedDate = t, j_notes = b_notes b, j_salary = b_salary b,
                     j_location = map_option trim (b_location b),
                     j_jobUrl = map_option trim (b_jobUrl b),
                     j_createdAt = now e, j_updatedAt = now e\<rparr>)
      | _ \<Rightarrow> None)"

definition Job_create :: "env \<Rightarrow> oid \<Rightarrow> job_body \<Rightarrow> state \<Rightarrow> (job \<times> state) option" where
  "Job_create e uid b s =
     (case Job_doc e uid b s of
        None \<Rightarrow> None
      | Some j \<Rightarrow>
          if Job_valid j
          then Some (j, s\<lparr>jobs := jobs s @ [j], nextId := Suc (nextId s)\<rparr>)
          else None)"

text \<open>\<^verbatim>\<open>Job.findOne({_id, user})\<close>.\<close>

definition Job_findOne :: "oid \<Rightarrow> oid \<Rightarrow> state \<Rightarrow> job option" where
  "Job_findOne i uid s = find (\<lambda>j. j_id j = i \<and> j_user j = uid) (jobs s)"

text \<open>An update or a removal by \<^verbatim>\<open>_id\<close> touches the first document with that id.\<close>

fun update_first :: "('a \<Rightarrow> bool) \<Rightarrow> ('a \<Rightarrow> 'a) \<Rightarrow> 'a list \<Rightarrow> 'a list" where
  "update_first P f [] = []"
| "update_first P f (x # xs) = (if P x then f x # xs else x # update_first P f xs)"

fun remove_first :: "('a \<Rightarrow> bool) \<Rightarrow> 'a list \<Rightarrow> 'a list" where
  "remove_first P [] = []"
| "remove_first P (x # xs) = (if P x then xs else x # remove_first P xs)"

text \<open>\<^verbatim>\<open>Job.findByIdAndUpdate(id, body, {new: true, runValidators: true})\<close>: the paths
  present in the body are cast and set, their validators run, and \<^verbatim>\<open>updatedAt\<close> is
  refreshed. \<open>None\<close> is the exception of a failed cast or validator; \<open>Some (None, s)\<close> is
  the \<^verbatim>\<open>null\<close> of an id that matches no document.\<close>

definition Job_set :: "env \<Rightarrow> job_body \<Rightarrow> time \<Rightarrow> job \<Rightarrow> job" where
  "Job_set e b t j =
     j\<lparr>j_company := (case b_company b of None \<Rightarrow> j_company j | Some c \<Rightarrow> trim c),
       j_position := (case b_position b of None \<Rightarrow> j_position j | Some p \<Rightarrow> trim p),
       j_status := (case b_status b of None \<Rightarrow> j_status j | Some v \<Rightarrow> v),
       j_appliedDate := t,
       j_notes := (case b_notes b of None \<Rightarrow> j_notes j | Some n \<Rightarrow> Some n),
       j_salary := (case b_salary b of None \<Rightarrow> j_salary j | Some n \<Rightarrow> Some n),
       j_location := (case b_location b of None \<Rightarrow> j_location j | Some l \<Rightarrow> Some (trim l)),
       j_jobUrl := (case b_jobUrl b of None \<Rightarrow> j_jobUrl j | Some l \<Rightarrow> Some (trim l)),
       j_updatedAt := now e\<rparr>"

definition Job_update_valid :: "job_body \<Rightarrow> bool" where
  "Job_update_valid b =
     (opt_ok (\<lambda>c. required_max 100 (trim c)) (b_company b)
      \<and> opt_ok (\<lambda>p. required_max 100 (trim p)) (b_position b)
      \<and> opt_ok (\<lambda>v. v \<in> set job_statuses) (b_status b)
      \<and> opt_ok (\<lambda>n. length n \<le> 500) (b_notes b)
      \<and> opt_ok (\<lambda>n. 0 \<le> n) (b_salary b)
      \<and> opt_ok (\<lambda>l. length (trim l) \<le> 100) (b_location b))"

definition Job_findByIdAndUpdate ::
  "env \<Rightarrow> oid \<Rightarrow> job_body \<Rightarrow> state \<Rightarrow> (job option \<times> state) option" where
  "Job_findByIdAndUpdate e i b s =
     (case find (\<lambda>j. j_id j = i) (jobs s) of
        None \<Rightarrow> (if Job_update_valid b \<and> opt_ok (\<lambda>d. castDate e d \<noteq> None) (b_appliedDate b)
                 then Some (None, s) else None)
      | Some j \<Rightarrow>
          (case (case b_appliedDate b of None \<Rightarrow> Some (j_appliedDate j)
                 | Some d \<Rightarrow> castDate e d) of
             None \<Rightarrow> None
           | Some t \<Rightarrow>
               if Job_update_valid b
               then Some (Some (Job_set e b t j),
                          s\<lparr>jobs := update_first (\<lambda>j. j_id j = i) (Job_set e b t) (jobs s)\<rparr>)
               else None))"

definition Job_findByIdAndDelete :: "oid \<Rightarrow> state \<Rightarrow> state" where
  "Job_findByIdAndDelete i s = s\<lparr>jobs := remove_first (\<lambda>j. j_id j = i) (jobs s)\<rparr>"

section \<open>Notifications\<close>

text \<open>\<^verbatim>\<open>req.io.emit(...)\<close>: the event is appended to the log of published events, or the
  call throws (\<open>None\<close>).\<close>

text \<open>The four notifications of the routes, with the messages the handlers build.\<close>

definition job_created :: "job \<Rightarrow> user \<Rightarrow> event" where
  "job_created job u =
     JobCreated (''New job application added: '' @ j_position job @ '' at '' @ j_company job)
       job (u_name u)"

definition job_status_updated :: "job \<Rightarrow> user \<Rightarrow> string \<Rightarrow> event" where
  "job_status_updated job u oldStatus =
     JobStatusUpdated (''Job status updated: '' @ j_position job @ '' at '' @ j_company job
                         @ '' - '' @ j_status job)
       job (u_name u) oldStatus (j_status job)"

definition job_deleted :: "job \<Rightarrow> user \<Rightarrow> event" where
  "job_deleted job u =
     JobDeleted (''Job application deleted: '' @ j_position job @ '' at '' @ j_company job)
       job (u_name u)"

definition new_feedback :: "feedback \<Rightarrow> time \<Rightarrow> event" where
  "new_feedback fb t = NewFeedback ''New feedback received'' fb t"

definition io_emit :: "env \<Rightarrow> event \<Rightarrow> state \<Rightarrow> state option" where
  "io_emit e ev s = (if publish e ev then Some (s\<lparr>emitted := emitted s @ [ev]\<rparr>) else None)"

section \<open>Queries: filters, sorting, pagination\<close>

text \<open>A JavaScript condition on a query-string value: absent and empty are falsy.\<close>

definition truthy :: "string option \<Rightarrow> bool" where
  "truthy v = (case v of None \<Rightarrow> False | Some s \<Rightarrow> s \<noteq> [])"

text \<open>The filter object of the job queries: each key is present or absent.\<close>

record job_filter =
  q_user :: "oid option"
  q_status :: "string option"
  q_search :: "string option"

definition job_matches :: "env \<Rightarrow> job_filter \<Rightarrow> job \<Rightarrow> bool" where
  "job_matches e q j =
     (opt_ok (\<lambda>uid. j_user j = uid) (q_user q)
      \<and> opt_ok (\<lambda>v. j_status j = v) (q_status q)
      \<and> opt_ok (\<lambda>r. regexTest e r (j_company j) \<or> regexTest e r (j_position j)) (q_search q))"

text \<open>The values a sort compares, in the database's order: null, then numbers, then
  strings (by code unit).\<close>

datatype bson = BNull | BNum int | BStr string

fun str_le :: "string \<Rightarrow> string \<Rightarrow> bool" where
  "str_le [] _ = True"
| "str_le (x # xs) [] = False"
| "str_le (x # xs) (y # ys) =
     ((of_char x :: nat) < of_char y \<or> (x = y \<and> str_le xs ys))"

fun bson_le :: "bson \<Rightarrow> bson \<Rightarrow> bool" where
  "bson_le BNull _ = True"
| "bson_le (BNum a) BNull = False"
| "bson_le (BNum a) (BNum b) = (a \<le> b)"
| "bson_le (BNum a) (BStr t) = True"
| "bson_le (BStr s) (BStr t) = str_le s t"
| "bson_le (BStr s) _ = False"

definition bson_opt :: "('a \<Rightarrow> bson) \<Rightarrow> 'a option \<Rightarrow> bson" where
  "bson_opt f v = (case v of None \<Rightarrow> BNull | Some x \<Rightarrow> f x)"

text \<open>The value of a job's path, by the path's name; an unknown path is absent.\<close>

definition job_path :: "string \<Rightarrow> job \<Rightarrow> bson" where
  "job_path k j =
     (if k = ''_id'' then BNum (int (j_id j))
      else if k = ''user'' then BNum (int (j_user j))
      else if k = ''company'' then BStr (j_company j)
      else if k = ''position'' then BStr (j_position j)
      else if k = ''status'' then BStr (j_status j)
      else if k = ''appliedDate'' then BNum (j_appliedDate j)
      else if k = ''notes'' then bson_opt BStr (j_notes j)
      else if k = ''salary'' then bson_opt BNum (j_salary j)
      else if k = ''location'' then bson_opt BStr (j_location j)
      else if k = ''jobUrl'' then bson_opt BStr (j_jobUrl j)
      else if k = ''createdAt'' then BNum (j_createdAt j)
      else if k = ''updatedAt'' then BNum (j_updatedAt j)
      else BNull)"

text \<open>\<^verbatim>\<open>.sort({[key]: dir})\<close>: an insertion sort on the key, ascending for \<open>dir = 1\<close>
  and descending for \<open>dir = -1\<close>. The database leaves the order of equal keys open; the
  model keeps them in collection order.\<close>

fun insort_by :: "('a \<Rightarrow> 'a \<Rightarrow> bool) \<Rightarrow> 'a \<Rightarrow> 'a list \<Rightarrow> 'a list" where
  "insort_by le x [] = [x]"
| "insort_by le x (y # ys) = (if le x y then x # y # ys else y # insort_by le x ys)"

definition sort_by :: "('a \<Rightarrow> bson) \<Rightarrow> int \<Rightarrow> 'a list \<Rightarrow> 'a list" where
  "sort_by key dir xs =
     foldr (insort_by (\<lambda>a b. if dir = -1 then bson_le (key b) (key a)
                              else bson_le (key a) (key b))) xs []"


definition paginate :: "int \<Rightarrow> int \<Rightarrow> 'a list \<Rightarrow> 'a list option" where
  "paginate page limit xs =
     (let skip = (page - 1) * limit in
      if skip < 0 then None
      else Some (if limit = 0 then drop (nat skip) xs
                 else take (nat \<bar>limit\<bar>) (drop (nat skip) xs)))"

text \<open>\<^verbatim>\<open>Math.ceil(total / limit)\<close>; the quotient by 0 is no number and is sent as
  \<^verbatim>\<open>null\<close>.\<close>

definition page_count :: "nat \<Rightarrow> int \<Rightarrow> int option" where
  "page_count n limit =
     (if limit = 0 then None else Some \<lceil>(of_nat n :: real) / of_int limit\<rceil>)"

text \<open>The envelope of a list endpoint, from the matching documents in sorted order:
  \<^verbatim>\<open>{count: docs.length, total, pagination: {page: parseInt(page), pages}, data: docs}\<close>.
  An exception of the query is answered with status 500 and the handler's message.\<close>

definition list_envelope ::
  "string \<Rightarrow> int \<Rightarrow> int \<Rightarrow> 'a list \<Rightarrow> error + 'a page_envelope reply" where
  "list_envelope err page limit matches =
     (case paginate page limit matches of
        None \<Rightarrow> Inl (ServerError err)
      | Some docs \<Rightarrow>
          Inr \<lparr>code = 200, message = None,
               payload = \<lparr>r_count = length docs, r_total = length matches, r_page = page,
                          r_pages = page_count (length matches) limit, r_data = docs\<rparr>\<rparr>)"

section \<open>The job routes (routes/jobs.js)\<close>

text \<open>The handlers run behind \<^verbatim>\<open>protect\<close>: \<open>u\<close> is the authenticated caller. A handler
  returns its response and the state it leaves; a read-only handler returns its response.
  \<^verbatim>\<open>populate('user', 'name email')\<close> only expands the owner's id in the response and is
  left out.\<close>

record jobs_query =
  jq_status :: "string option"
  jq_sortBy :: "string option"
  jq_order :: "string option"
  jq_page :: "int option"
  jq_limit :: "int option"

definition or_default :: "'a \<Rightarrow> 'a option \<Rightarrow> 'a" where
  "or_default d v = (case v of None \<Rightarrow> d | Some x \<Rightarrow> x)"

text \<open>\<^verbatim>\<open>if (status && status !== 'all') query.status = status\<close>.\<close>

definition status_filter :: "string option \<Rightarrow> string option" where
  "status_filter st = (if truthy st \<and> st \<noteq> Some ''all'' then st else None)"

definition get_jobs_filter :: "user \<Rightarrow> jobs_query \<Rightarrow> job_filter" where
  "get_jobs_filter u rq =
     \<lparr>q_user = Some (u_id u), q_status = status_filter (jq_status rq), q_search = None\<rparr>"

text \<open>\<^verbatim>\<open>.sort({[sortBy]: sortOrder})\<close> throws on a field name the database does not
  accept in a sort, as the empty one.\<close>

definition sort_key_ok :: "env \<Rightarrow> string \<Rightarrow> bool" where
  "sort_key_ok e k = (k \<noteq> [] \<and> sortable e k)"

definition get_jobs :: "env \<Rightarrow> user \<Rightarrow> jobs_query \<Rightarrow> state \<Rightarrow> error + job page_envelope reply" where
  "get_jobs e u rq s =
     (let query = get_jobs_filter u rq;
          sortBy = or_default ''createdAt'' (jq_sortBy rq);
          sortOrder = (if or_default ''desc'' (jq_order rq) = ''desc'' then -1 else 1)
      in if \<not> sort_key_ok e sortBy
         then Inl (ServerError ''Server error while fetching jobs'')
         else list_envelope ''Server error while fetching jobs''
                (or_default 1 (jq_page rq)) (or_default 10 (jq_limit rq))
                (sort_by (job_path sortBy) sortOrder
                   (filter (job_matches e query) (jobs s))))"

definition get_job :: "user \<Rightarrow> oid \<Rightarrow> state \<Rightarrow> error + job reply" where
  "get_job u i s =
     (case Job_findOne i (u_id u) s of
        None \<Rightarrow> Inl (NotFound ''Job not found'')
      | Some job \<Rightarrow> Inr \<lparr>code = 200, message = None, payload = job\<rparr>)"

definition post_job :: "env \<Rightarrow> user \<Rightarrow> job_body \<Rightarrow> state \<Rightarrow> (error + job reply) \<times> state" where
  "post_job e u b s =
     (case jobValidation e b of
        m # ms \<Rightarrow> (Inl (ValidationFailed (m # ms)), s)
      | [] \<Rightarrow>
          (case Job_create e (u_id u) (jobSanitized b) s of
             None \<Rightarrow> (Inl (ServerError ''Server error while creating job''), s)
           | Some (job, s1) \<Rightarrow>
               (case io_emit e (job_created job u) s1 of
                  None \<Rightarrow> (Inl (ServerError ''Server error while creating job''), s1)
                | Some s2 \<Rightarrow>
                    (Inr \<lparr>code = 201, message = Some ''Job application created successfully'',
                          payload = job\<rparr>, s2))))"

definition put_job ::
  "env \<Rightarrow> user \<Rightarrow> oid \<Rightarrow> job_body \<Rightarrow> state \<Rightarrow> (error + job reply) \<times> state" where
  "put_job e u i b s =
     (case jobValidation e b of
        m # ms \<Rightarrow> (Inl (ValidationFailed (m # ms)), s)
      | [] \<Rightarrow>
          (case Job_findOne i (u_id u) s of
             None \<Rightarrow> (Inl (NotFound ''Job not found''), s)
           | Some found \<Rightarrow>
               (let oldStatus = j_status found in
                case Job_findByIdAndUpdate e i (jobSanitized b) s of
                  None \<Rightarrow> (Inl (ServerError ''Server error while updating job''), s)
                | Some (None, s1) \<Rightarrow> (Inl (ServerError ''Server error while updating job''), s1)
                | Some (Some job, s1) \<Rightarrow>
                    (let ok = (Inr \<lparr>code = 200,
                                     message = Some ''Job application updated successfully'',
                                     payload = job\<rparr>) in
                     if oldStatus \<noteq> j_status job
                     then (case io_emit e (job_status_updated job u oldStatus) s1 of
                             None \<Rightarrow> (Inl (ServerError ''Server error while updating job''), s1)
                           | Some s2 \<Rightarrow> (ok, s2))
                     else (ok, s1)))))"

definition delete_job :: "env \<Rightarrow> user \<Rightarrow> oid \<Rightarrow> state \<Rightarrow> (error + unit reply) \<times> state" where
  "delete_job e u i s =
     (case Job_findOne i (u_id u) s of
        None \<Rightarrow> (Inl (NotFound ''Job not found''), s)
      | Some job \<Rightarrow>
          (let s1 = Job_findByIdAndDelete i s in
           case io_emit e (job_deleted job u) s1 of
             None \<Rightarrow> (Inl (ServerError ''Server error while deleting job''), s1)
           | Some s2 \<Rightarrow>
               (Inr \<lparr>code = 200, message = Some ''Job application deleted successfully'',
                     payload = ()\<rparr>, s2)))"

section \<open>Statistics\<close>

text \<open>\<^verbatim>\<open>$group: {_id: '$field', count: {$sum: 1}}\<close>: one entry for each value that occurs,
  with the number of its occurrences. The database leaves the order of the groups open;
  the model lists them by last occurrence.\<close>

definition group_count :: "'k list \<Rightarrow> ('k \<times> nat) list" where
  "group_count ks = map (\<lambda>k. (k, count_list ks k)) (remdups ks)"

text \<open>\<^verbatim>\<open>stats.forEach(stat => { obj[stat._id] = stat.count })\<close> on an object literal: an
  object is the list of its keys and values.\<close>

fun assign_counts :: "('k \<times> nat) list \<Rightarrow> ('k \<times> nat) list \<Rightarrow> ('k \<times> nat) list" where
  "assign_counts obj [] = obj"
| "assign_counts obj ((k, c) # stats) = assign_counts (AList.update k c obj) stats"

record job_stats =
  totalJobs :: nat
  statusStats :: "(string \<times> nat) list"
  recentJobs :: "job list"

definition get_jobs_stats :: "user \<Rightarrow> state \<Rightarrow> job_stats reply" where
  "get_jobs_stats u s =
     (let mine = filter (\<lambda>j. j_user j = u_id u) (jobs s);
          stats = group_count (map j_status mine)
      in \<lparr>code = 200, message = None,
           payload = \<lparr>totalJobs = length mine,
                      statusStats = assign_counts
                        [(''applied'', 0), (''interview'', 0), (''offer'', 0),
                         (''rejected'', 0), (''accepted'', 0)] stats,
                      recentJobs = take 5 (sort_by (job_path ''updatedAt'') (-1) mine)\<rparr>\<rparr>)"

section \<open>The Feedback model (feedbackSchema) and its validation\<close>

definition feedback_statuses :: "string list" where
  "feedback_statuses = [''pending'', ''reviewed'', ''resolved'']"

definition feedback_categories :: "string list" where
  "feedback_categories = [''general'', ''feature'', ''bug'', ''improvement'']"

text \<open>The body of a feedback request. It goes to \<^verbatim>\<open>Feedback.create\<close> as it is, so every
  path of the schema can be given. A rating is an integer here.\<close>

record feedback_body =
  fb_feedback :: "string option"
  fb_rating :: "int option"
  fb_name :: "string option"
  fb_email :: "string option"
  fb_category :: "string option"
  fb_isPublic :: "bool option"
  fb_status :: "string option"

definition feedbackValidation :: "env \<Rightarrow> feedback_body \<Rightarrow> string list" where
  "feedbackValidation e b =
     (if isLength 1 1000 (trim (str_of (fb_feedback b))) then []
      else [''Feedback is required and must not exceed 1000 characters''])
   @ (case fb_rating b of None \<Rightarrow> [''Rating must be between 1 and 5'']
      | Some r \<Rightarrow> if 1 \<le> r \<and> r \<le> 5 then [] else [''Rating must be between 1 and 5''])
   @ (case fb_name b of None \<Rightarrow> []
      | Some n \<Rightarrow> if isLength 0 50 (trim n) then [] else [''Name cannot exceed 50 characters''])
   @ (case fb_email b of None \<Rightarrow> []
      | Some m \<Rightarrow> if isEmail e m then [] else [''Please provide a valid email''])"

definition feedbackSanitized :: "env \<Rightarrow> feedback_body \<Rightarrow> feedback_body" where
  "feedbackSanitized e b =
     b\<lparr>fb_feedback := Some (trim (str_of (fb_feedback b))),
       fb_name := map_option trim (fb_name b),
       fb_email := map_option (normalizeEmail e) (fb_email b)\<rparr>"

definition Feedback_valid :: "env \<Rightarrow> feedback \<Rightarrow> bool" where
  "Feedback_valid e f =
     (opt_ok (\<lambda>n. length n \<le> 50) (f_name f)
      \<and> opt_ok (\<lambda>m. m = [] \<or> emailMatch e m) (f_email f)
      \<and> required_max 1000 (f_feedback f)
      \<and> 1 \<le> f_rating f \<and> f_rating f \<le> 5
      \<and> f_category f \<in> set feedback_categories
      \<and> f_status f \<in> set feedback_statuses)"

text \<open>\<^verbatim>\<open>Feedback.create(req.body)\<close>, with the defaults \<^verbatim>\<open>category: 'general'\<close>,
  \<^verbatim>\<open>isPublic: true\<close> and \<^verbatim>\<open>status: 'pending'\<close>; \<open>None\<close> is the exception of an absent
  required path or a failed validator.\<close>

definition Feedback_doc :: "env \<Rightarrow> feedback_body \<Rightarrow> state \<Rightarrow> feedback option" where
  "Feedback_doc e b s =
     (case (fb_feedback b, fb_rating b) of
        (Some t, Some r) \<Rightarrow>
          Some \<lparr>f_id = nextId s, f_name = map_option trim (fb_name b),
                f_email = map_option (\<lambda>m. toLowerCase e (trim m)) (fb_email b),
                f_feedback = trim t, f_rating = r,
                f_category = or_default ''general'' (fb_category b),
                f_isPublic = or_default True (fb_isPublic b),
                f_status = or_default ''pending'' (fb_status b),
                f_createdAt = now e, f_updatedAt = now e\<rparr>
      | _ \<Rightarrow> None)"

definition Feedback_create :: "env \<Rightarrow> feedback_body \<Rightarrow> state \<Rightarrow> (feedback \<times> state) option" where
  "Feedback_create e b s =
     (case Feedback_doc e b s of
        None \<Rightarrow> None
      | Some f \<Rightarrow>
          if Feedback_valid e f
          then Some (f, s\<lparr>feedbacks := feedbacks s @ [f], nextId := Suc (nextId s)\<rparr>)
          else None)"

section \<open>The feedback routes (routes/feedback.js)\<close>

definition post_feedback ::
  "env \<Rightarrow> feedback_body \<Rightarrow> state \<Rightarrow> (error + feedback reply) \<times> state" where
  "post_feedback e b s =
     (case feedbackValidation e b of
        m # ms \<Rightarrow> (Inl (ValidationFailed (m # ms)), s)
      | [] \<Rightarrow>
          (case Feedback_create e (feedbackSanitized e b) s of
             None \<Rightarrow> (Inl (ServerError ''Server error while submitting feedback''), s)
           | Some (fb, s1) \<Rightarrow>
               (case io_emit e (new_feedback fb (now e)) s1 of
                  None \<Rightarrow> (Inl (ServerError ''Server error while submitting feedback''), s1)
                | Some s2 \<Rightarrow>
                    (Inr \<lparr>code = 201, message = Some ''Feedback submitted successfully'',
                          payload = fb\<rparr>, s2))))"




text \<open>\<^verbatim>\<open>$group: {_id: null, avgRating: {$avg: '$rating'}}\<close>: no group on an empty
  collection, otherwise the one group with the mean.\<close>

definition avg_group :: "int list \<Rightarrow> real list" where
  "avg_group rs = (if rs = [] then [] else [of_int (sum_list rs) / of_nat (length rs)])"

text \<open>\<^verbatim>\<open>result[0]?.avgRating || 0\<close>: zero for no group and for a falsy mean.\<close>

definition avg_or_zero :: "real list \<Rightarrow> real" where
  "avg_or_zero groups = (case groups of [] \<Rightarrow> 0 | a # _ \<Rightarrow> if a = 0 then 0 else a)"

definition rating_stats :: "state \<Rightarrow> (int \<times> nat) list" where
  "rating_stats s =
     sort_by (\<lambda>g. BNum (fst g)) (-1) (group_count (map f_rating (feedbacks s)))"

record feedback_stats =
  totalFeedbacks :: nat
  averageRating :: real
  ratingDistribution :: "(int \<times> nat) list"

definition get_feedback_stats :: "state \<Rightarrow> feedback_stats reply" where
  "get_feedback_stats s =
     \<lparr>code = 200, message = None,
      payload = \<lparr>totalFeedbacks = length (feedbacks s),
                 averageRating = avg_or_zero (avg_group (map f_rating (feedbacks s))),
                 ratingDistribution =
                   assign_counts [(5, 0), (4, 0), (3, 0), (2, 0), (1, 0)] (rating_stats s)\<rparr>\<rparr>"

section \<open>The admin routes\<close>

text \<open>The handlers run behind \<^verbatim>\<open>protect\<close> and \<^verbatim>\<open>authorize('admin')\<close>.\<close>

text \<open>\<^verbatim>\<open>Math.round(x * 10) / 10\<close>; \<^verbatim>\<open>Math.round\<close> rounds a half up.\<close>

definition round1 :: "real \<Rightarrow> real" where
  "round1 x = of_int \<lfloor>x * 10 + 1 / 2\<rfloor> / 10"

definition admin_averageRating :: "state \<Rightarrow> real" where
  "admin_averageRating s = avg_or_zero (avg_group (map f_rating (feedbacks s)))"

text \<open>The dashboard: the overview and the two distributions, which are the results of the
  aggregations as the database returns them. The recent documents and the counts of the
  last 30 days are further reads of the same state.\<close>

record admin_stats =
  a_totalUsers :: nat
  a_totalJobs :: nat
  a_totalFeedbacks :: nat
  a_averageRating :: real
  jobStatusStats :: "(string \<times> nat) list"
  feedbackRatingStats :: "(int \<times> nat) list"

definition get_admin_stats :: "state \<Rightarrow> admin_stats reply" where
  "get_admin_stats s =
     \<lparr>code = 200, message = None,
      payload = \<lparr>a_totalUsers = length (filter (\<lambda>u. u_role u = ''applicant'') (users s)),
                 a_totalJobs = length (jobs s),
                 a_totalFeedbacks = length (feedbacks s),
                 a_averageRating = round1 (admin_averageRating s),
                 jobStatusStats = group_count (map j_status (jobs s)),
                 feedbackRatingStats = rating_stats s\<rparr>\<rparr>"

record admin_jobs_query =
  aq_page :: "int option"
  aq_limit :: "int option"
  aq_status :: "string option"
  aq_search :: "string option"

definition admin_jobs_filter :: "admin_jobs_query \<Rightarrow> job_filter" where
  "admin_jobs_filter rq =
     \<lparr>q_user = None, q_status = status_filter (aq_status rq),
      q_search = (if truthy (aq_search rq) then aq_search rq else None)\<rparr>"

text \<open>A \<^verbatim>\<open>$regex\<close> whose pattern does not compile makes the query throw.\<close>

definition get_admin_jobs ::
  "env \<Rightarrow> admin_jobs_query \<Rightarrow> state \<Rightarrow> error + job page_envelope reply" where
  "get_admin_jobs e rq s =
     (if \<not> opt_ok (regexValid e) (q_search (admin_jobs_filter rq))
      then Inl (ServerError ''Server error while fetching jobs'')
      else list_envelope ''Server error while fetching jobs''
             (or_default 1 (aq_page rq)) (or_default 10 (aq_limit rq))
             (sort_by (job_path ''createdAt'') (-1)
                (filter (job_matches e (admin_jobs_filter rq)) (jobs s))))"

text \<open>\<^verbatim>\<open>PUT /feedback/:id/status\<close>: \<open>st\<close> is \<^verbatim>\<open>req.body.status\<close>. The update sets
  \<^verbatim>\<open>status\<close>, and \<^verbatim>\<open>updatedAt\<close> as the schema's timestamps have it.\<close>

definition put_feedback_status ::
  "env \<Rightarrow> oid \<Rightarrow> string option \<Rightarrow> state \<Rightarrow> (error + feedback reply) \<times> state" where
  "put_feedback_status e i st s =
     (case st of
        None \<Rightarrow> (Inl (BadRequest ''Invalid status''), s)
      | Some v \<Rightarrow>
          if v \<notin> set feedback_statuses then (Inl (BadRequest ''Invalid status''), s)
          else
            (case find (\<lambda>f. f_id f = i) (feedbacks s) of
               None \<Rightarrow> (Inl (NotFound ''Feedback not found''), s)
             | Some f \<Rightarrow>
                 (Inr \<lparr>code = 200, message = Some ''Feedback status updated successfully'',
                       payload = f\<lparr>f_status := v, f_updatedAt := now e\<rparr>\<rparr>,
                  s\<lparr>feedbacks := update_first (\<lambda>f. f_id f = i)
                       (\<lambda>f. f\<lparr>f_status := v, f_updatedAt := now e\<rparr>) (feedbacks s)\<rparr>)))"

text \<open>\<^verbatim>\<open>PUT /users/:id/toggle-status\<close>: the flag is negated on the document read and the
  document is saved.\<close>

definition toggle_status :: "env \<Rightarrow> oid \<Rightarrow> state \<Rightarrow> (error + user reply) \<times> state" where
  "toggle_status e i s =
     (case find (\<lambda>u. u_id u = i) (users s) of
        None \<Rightarrow> (Inl (NotFound ''User not found''), s)
      | Some usr \<Rightarrow>
          (let saved = usr\<lparr>u_isActive := \<not> u_isActive usr, u_updatedAt := now e\<rparr> in
           (Inr \<lparr>code = 200,
                 message = Some (''User '' @ (if u_isActive saved then ''activated''
                                             else ''deactivated'') @ '' successfully''),
                 payload = saved\<rparr>,
            s\<lparr>users := update_first (\<lambda>u. u_id u = i) (\<lambda>_. saved) (users s)\<rparr>)))"

section \<open>The properties of a page\<close>


section \<open>Sample data\<close>

text \<open>An environment whose socket server delivers, one whose socket server throws, two
  users, and states with a few jobs and feedback records, on which the theorems below are
  instantiated.\<close>

definition env0 :: env where
  "env0 = \<lparr>now = 1704153600000,
           isISO8601 = (\<lambda>d. d = ''2024-01-01''),
           castDate = (\<lambda>d. if d = ''2024-01-01'' then Some 1704067200000 else None),
           isEmail = (\<lambda>m. CHR ''@'' \<in> set m),
           normalizeEmail = (\<lambda>m. m),
           emailMatch = (\<lambda>m. CHR ''@'' \<in> set m),
           toLowerCase = (\<lambda>m. m),
           regexValid = (\<lambda>r. CHR ''('' \<notin> set r),
           regexTest = (\<lambda>r t. r = t),
           sortable = (\<lambda>k. CHR ''$'' \<notin> set k),
           publish = (\<lambda>ev. True)\<rparr>"

definition env_down :: env where
  "env_down = env0\<lparr>publish := (\<lambda>ev. False)\<rparr>"

definition alice :: user where
  "alice = \<lparr>u_id = 1, u_name = ''Alice'', u_email = ''alice@example.com'',
            u_password = ''h1'', u_role = ''applicant'', u_isActive = True,
            u_createdAt = 100, u_updatedAt = 100\<rparr>"

definition bob :: user where
  "bob = \<lparr>u_id = 2, u_name = ''Bob'', u_email = ''bob@example.com'',
          u_password = ''h2'', u_role = ''applicant'', u_isActive = True,
          u_createdAt = 200, u_updatedAt = 200\<rparr>"

definition acme_body :: job_body where
  "acme_body = \<lparr>b_company = Some ''Acme'', b_position = Some ''Engineer'', b_status = None,
                b_appliedDate = Some ''2024-01-01'', b_notes = None, b_salary = None,
                b_location = None, b_jobUrl = None\<rparr>"

definition undated_body :: job_body where
  "undated_body = acme_body\<lparr>b_appliedDate := None\<rparr>"

definition interview_body :: job_body where
  "interview_body = acme_body\<lparr>b_status := Some ''interview''\<rparr>"

definition empty_body :: job_body where
  "empty_body = \<lparr>b_company = None, b_position = None, b_status = None,
                 b_appliedDate = None, b_notes = None, b_salary = None,
                 b_location = None, b_jobUrl = None\<rparr>"

definition acme_job :: job where
  "acme_job = \<lparr>j_id = 3, j_user = 1, j_company = ''Acme'', j_position = ''Engineer'',
               j_status = ''applied'', j_appliedDate = 1704067200000, j_notes = None,
               j_salary = None, j_location = None, j_jobUrl = None,
               j_createdAt = 300, j_updatedAt = 300\<rparr>"

definition globex_job :: job where
  "globex_job = \<lparr>j_id = 4, j_user = 1, j_company = ''Globex'', j_position = ''Analyst'',
                 j_status = ''interview'', j_appliedDate = 1704067200000, j_notes = None,
                 j_salary = Some 50000, j_location = None, j_jobUrl = None,
                 j_createdAt = 400, j_updatedAt = 400\<rparr>"

definition initech_job :: job where
  "initech_job = \<lparr>j_id = 5, j_user = 2, j_company = ''Initech'', j_position = ''Tester'',
                  j_status = ''applied'', j_appliedDate = 1704067200000, j_notes = None,
                  j_salary = None, j_location = None, j_jobUrl = None,
                  j_createdAt = 500, j_updatedAt = 500\<rparr>"

definition praise :: feedback where
  "praise = \<lparr>f_id = 6, f_name = Some ''Ann'', f_email = Some ''ann@example.com'',
             f_feedback = ''Great tool'', f_rating = 5, f_category = ''general'',
             f_isPublic = True, f_status = ''pending'', f_createdAt = 600, f_updatedAt = 600\<rparr>"

definition gripe :: feedback where
  "gripe = \<lparr>f_id = 7, f_name = None, f_email = None,
            f_feedback = ''Slow search'', f_rating = 2, f_category = ''bug'',
            f_isPublic = True, f_status = ''pending'', f_createdAt = 700, f_updatedAt = 700\<rparr>"

definition praise_body :: feedback_body where
  "praise_body = \<lparr>fb_feedback = Some ''Great tool'', fb_rating = Some 5, fb_name = None,
                  fb_email = None, fb_category = None, fb_isPublic = None, fb_status = None\<rparr>"

definition state0 :: state where
  "state0 = \<lparr>users = [alice, bob], jobs = [], feedbacks = [], nextId = 3, emitted = []\<rparr>"

definition state1 :: state where
  "state1 = \<lparr>users = [alice, bob], jobs = [acme_job, globex_job, initech_job],
             feedbacks = [praise, gripe], nextId = 8, emitted = []\<rparr>"

definition created_job :: job where
  "created_job = \<lparr>j_id = 3, j_user = 1, j_company = ''Acme'', j_position = ''Engineer'',
                  j_status = ''applied'', j_appliedDate = 1704067200000, j_notes = None,
                  j_salary = None, j_location = None, j_jobUrl = None,
                  j_createdAt = 1704153600000, j_updatedAt = 1704153600000\<rparr>"

definition created_feedback :: feedback where
  "created_feedback = \<lparr>f_id = 3, f_name = None, f_email = None,
                       f_feedback = ''Great tool'', f_rating = 5, f_category = ''general'',
                       f_isPublic = True, f_status = ''pending'',
                       f_createdAt = 1704153600000, f_updatedAt = 1704153600000\<rparr>"

definition updated_job :: job where
  "updated_job = acme_job\<lparr>j_status := ''interview'', j_updatedAt := 1704153600000\<rparr>"

definition defaulted_job :: job where
  "defaulted_job = created_job\<lparr>j_appliedDate := 1704153600000\<rparr>"

definition acme_search :: admin_jobs_query where
  "acme_search = \<lparr>aq_page = None, aq_limit = None, aq_status = None,
                  aq_search = Some ''Acme''\<rparr>"

definition all_jobs :: jobs_query where
  "all_jobs = \<lparr>jq_status = None, jq_sortBy = None, jq_order = None,
               jq_page = None, jq_limit = None\<rparr>"

section \<open>Evaluation and basic facts\<close>

lemmas sample_defs = env0_def env_down_def alice_def bob_def acme_body_def undated_body_def
  interview_body_def empty_body_def acme_job_def globex_job_def initech_job_def praise_def
  gripe_def praise_body_def state0_def state1_def all_jobs_def created_job_def created_feedback_def
  updated_job_def defaulted_job_def acme_search_def

lemmas eval_defs = jobValidation_def jobSanitized_def isLength_def trim_def str_of_def
  js_whitespace_def job_statuses_def Job_create_def Job_doc_def Job_valid_def required_max_def
  opt_ok_def io_emit_def job_created_def job_status_updated_def job_deleted_def new_feedback_def
  Job_findOne_def Job_findByIdAndUpdate_def Job_findByIdAndDelete_def Job_set_def Job_update_valid_def
  feedbackValidation_def feedbackSanitized_def Feedback_valid_def Feedback_doc_def Feedback_create_def
  feedback_statuses_def feedback_categories_def or_default_def

text \<open>Trimming strips the white space beyond ASCII too, here a no-break space and an
  ideographic space.\<close>

lemma trim_samples:
  "trim [CHR 0xC2, CHR 0xA0] = []"
  "trim ('' Acme'' @ [CHR 0xE3, CHR 0x80, CHR 0x80, CHR 0x0A]) = ''Acme''"
  by (simp_all add: trim_def js_whitespace_def)

section \<open>Creating a job: defaults\<close>

lemma jobValidation_dated:
  "jobValidation e b = [] \<Longrightarrow> \<exists>d. b_appliedDate b = Some d \<and> isISO8601 e d"
  by (auto simp: jobValidation_def split: option.splits if_splits)

lemma jobValidation_undated:
  "b_appliedDate b = None \<Longrightarrow> ''Please provide a valid date'' \<in> set (jobValidation e b)"
  by (simp add: jobValidation_def)

lemma post_job_accepted:
  assumes "post_job e u b s = (Inr r, s')"
  shows "jobValidation e b = []"
    and "code r = 201"
    and "\<exists>s1. Job_create e (u_id u) (jobSanitized b) s = Some (payload r, s1)
               \<and> io_emit e (job_created (payload r) u) s1 = Some s'"
  using assms by (auto simp: post_job_def split: list.splits option.splits prod.splits)

lemma Job_create_Some:
  assumes "Job_create e uid b s = Some (j, s1)"
  shows "Job_doc e uid b s = Some j" and "Job_valid j"
    and "s1 = s\<lparr>jobs := jobs s @ [j], nextId := Suc (nextId s)\<rparr>"
  using assms by (auto simp: Job_create_def split: option.splits if_splits)

lemma Job_doc_fields:
  assumes "Job_doc e uid b s = Some j"
  shows "j_status j = (case b_status b of None \<Rightarrow> ''applied'' | Some v \<Rightarrow> v)"
    and "(case b_appliedDate b of None \<Rightarrow> Some (now e) | Some d \<Rightarrow> castDate e d)
           = Some (j_appliedDate j)"
  using assms by (auto simp: Job_doc_def split: option.splits prod.splits)

lemma io_emit_Some: "io_emit e ev s = Some s' \<Longrightarrow> s' = s\<lparr>emitted := emitted s @ [ev]\<rparr> \<and> publish e ev"
  by (auto simp: io_emit_def split: if_splits)

text \<open>
  C1 (as amended). Whenever \<^verbatim>\<open>POST /jobs\<close> accepts a payload, the response is 201, the
  created record is stored, its status is \<^verbatim>\<open>applied\<close> if the payload omits \<^verbatim>\<open>status\<close>,
  and the payload carries an ISO 8601 \<^verbatim>\<open>appliedDate\<close> whose Date the record takes. A
  payload that omits \<^verbatim>\<open>appliedDate\<close> is not accepted: the response is 400 with the
  message of the date rule, and nothing is stored. The default of the creation instant is
  what \<^verbatim>\<open>Job.create\<close> itself applies to a document without \<^verbatim>\<open>appliedDate\<close>.
\<close>

theorem post_job_defaults:
  "(post_job e u b s = (Inr r, s') \<longrightarrow>
      code r = 201 \<and> payload r \<in> set (jobs s')
      \<and> (b_status b = None \<longrightarrow> j_status (payload r) = ''applied'')
      \<and> (\<exists>d. b_appliedDate b = Some d \<and> isISO8601 e d
               \<and> castDate e d = Some (j_appliedDate (payload r))))
   \<and> (b_appliedDate b = None \<longrightarrow>
        (\<exists>errs. post_job e u b s = (Inl (ValidationFailed errs), s)
                \<and> ''Please provide a valid date'' \<in> set errs))
   \<and> (b_appliedDate b = None \<and> Job_create e uid b s = Some (j, s1) \<longrightarrow>
        j_appliedDate j = now e \<and> j \<in> set (jobs s1))"
proof (intro conjI impI)
  assume acc: "post_job e u b s = (Inr r, s')"
  from post_job_accepted[OF acc] obtain s1 where
    v: "jobValidation e b = []" and c: "code r = 201"
    and cr: "Job_create e (u_id u) (jobSanitized b) s = Some (payload r, s1)"
    and em: "io_emit e (job_created (payload r) u) s1 = Some s'"
    by blast
  note d = Job_create_Some[OF cr]
  show "code r = 201" by (rule c)
  show "payload r \<in> set (jobs s')"
    using io_emit_Some[OF em] d(3) by simp
  show "j_status (payload r) = ''applied''" if "b_status b = None"
    using Job_doc_fields(1)[OF d(1)] that by (simp add: jobSanitized_def)
  from jobValidation_dated[OF v] obtain dt where dt: "b_appliedDate b = Some dt" "isISO8601 e dt"
    by blast
  then show "\<exists>d. b_appliedDate b = Some d \<and> isISO8601 e d
               \<and> castDate e d = Some (j_appliedDate (payload r))"
    using Job_doc_fields(2)[OF d(1)] by (simp add: jobSanitized_def)
next
  assume n: "b_appliedDate b = None"
  from jobValidation_undated[OF n, of e] obtain m ms where "jobValidation e b = m # ms"
    by (cases "jobValidation e b") auto
  then show "\<exists>errs. post_job e u b s = (Inl (ValidationFailed errs), s)
                \<and> ''Please provide a valid date'' \<in> set errs"
    using jobValidation_undated[OF n, of e] by (simp add: post_job_def)
next
  assume a: "b_appliedDate b = None \<and> Job_create e uid b s = Some (j, s1)"
  then show "j_appliedDate j = now e"
    using Job_doc_fields(2)[OF Job_create_Some(1)] by force
  from a show "j \<in> set (jobs s1)" using Job_create_Some(3) by force
qed

text \<open>The theorem at the sample payloads, with and without a date.\<close>

lemma sample_post: "post_job env0 alice acme_body state0 =
     (Inr \<lparr>code = 201, message = Some ''Job application created successfully'',
           payload = created_job\<rparr>,
      state0\<lparr>jobs := [created_job], nextId := 4, emitted := [job_created created_job alice]\<rparr>)"
  by (simp add: post_job_def eval_defs sample_defs)

lemma sample_create_undated:
  "Job_create env0 (u_id alice) undated_body state0 =
     Some (defaulted_job, state0\<lparr>jobs := [defaulted_job], nextId := 4\<rparr>)"
  by (simp add: eval_defs sample_defs)

theorem post_job_defaults_witness:
  "post_job env0 alice acme_body state0 =
     (Inr \<lparr>code = 201, message = Some ''Job application created successfully'',
           payload = created_job\<rparr>,
      state0\<lparr>jobs := [created_job], nextId := 4, emitted := [job_created created_job alice]\<rparr>)
   \<and> b_status acme_body = None \<and> j_status created_job = ''applied''
   \<and> b_appliedDate acme_body = Some ''2024-01-01''
   \<and> castDate env0 ''2024-01-01'' = Some (j_appliedDate created_job)
   \<and> b_appliedDate undated_body = None
   \<and> (\<exists>errs. post_job env0 alice undated_body state0 = (Inl (ValidationFailed errs), state0)
              \<and> ''Please provide a valid date'' \<in> set errs)
   \<and> Job_create env0 (u_id alice) undated_body state0 =
       Some (defaulted_job, state0\<lparr>jobs := [defaulted_job], nextId := 4\<rparr>)
   \<and> j_appliedDate defaulted_job = now env0"
  using post_job_defaults[of env0 alice acme_body state0
      "\<lparr>code = 201, message = Some ''Job application created successfully'', payload = created_job\<rparr>"
      "state0\<lparr>jobs := [created_job], nextId := 4, emitted := [job_created created_job alice]\<rparr>"]
    post_job_defaults[where e = env0 and u = alice and b = undated_body and s = state0
      and uid = "u_id alice" and j = defaulted_job
      and ?s1.0 = "state0\<lparr>jobs := [defaulted_job], nextId := 4\<rparr>"]
    sample_post sample_create_undated
  by (simp add: sample_defs)

text \<open>C1 as stated fails: the sample payload without \<^verbatim>\<open>appliedDate\<close> is answered with
  400 and the state is unchanged.\<close>

theorem undated_job_rejected:
  "post_job env0 alice undated_body state0 =
     (Inl (ValidationFailed [''Please provide a valid date'']), state0)"
  by (simp add: post_job_def eval_defs sample_defs)

section \<open>Finding and updating documents\<close>

lemma find_hit: "find P xs = Some x \<Longrightarrow> P x \<and> x \<in> set xs"
  by (induction xs) (auto split: if_splits)

lemma findOne_head:
  assumes "distinct (map j_id (a # js))" and "j_id a = i"
    and "find (\<lambda>j. j_id j = i \<and> j_user j = uid) (a # js) = Some x"
  shows "x = a" and "j_user a = uid"
proof -
  have "j_user a = uid"
  proof (rule ccontr)
    assume "j_user a \<noteq> uid"
    with assms(3) have "find (\<lambda>j. j_id j = i \<and> j_user j = uid) js = Some x" by simp
    then have "j_id x = i" "x \<in> set js" using find_hit[of _ js x] by auto
    then have "j_id a \<in> j_id ` set js" using assms(2) by (metis imageI)
    moreover have "j_id a \<notin> j_id ` set js" using assms(1) by simp
    ultimately show False by simp
  qed
  then show "j_user a = uid" .
  with assms(2,3) show "x = a" by simp
qed

lemma find_id_of_findOne:
  assumes "distinct (map j_id js)"
    and "find (\<lambda>j. j_id j = i \<and> j_user j = uid) js = Some x"
  shows "find (\<lambda>j. j_id j = i) js = Some x"
  using assms
proof (induction js)
  case Nil
  then show ?case by simp
next
  case (Cons a js)
  show ?case
  proof (cases "j_id a = i")
    case True
    from findOne_head(1)[OF Cons.prems(1) True Cons.prems(2)] True show ?thesis by simp
  next
    case False
    then show ?thesis using Cons by auto
  qed
qed

lemma findOne_foreign:
  assumes "distinct (map j_id js)" and "find (\<lambda>j. j_id j = i) js = Some j"
    and "j_user j \<noteq> uid"
  shows "find (\<lambda>j. j_id j = i \<and> j_user j = uid) js = None"
proof (cases "find (\<lambda>j. j_id j = i \<and> j_user j = uid) js")
  case None
  then show ?thesis .
next
  case (Some x)
  from find_id_of_findOne[OF assms(1) Some] assms(2) have "x = j" by simp
  moreover from find_hit[OF Some] have "j_user x = uid" by simp
  ultimately show ?thesis using assms(3) by simp
qed

lemma findOne_absent:
  "find (\<lambda>j. j_id j = i \<and> Q j) (filter (\<lambda>k. j_id k \<noteq> i) js) = None"
  by (simp add: find_None_iff)

section \<open>Notifications that fail\<close>

lemma post_job_publish_fails:
  assumes "jobValidation e b = []"
    and "Job_create e (u_id u) (jobSanitized b) s = Some (job, s1)"
    and "\<not> publish e (job_created job u)"
  shows "post_job e u b s = (Inl (ServerError ''Server error while creating job''), s1)"
  using assms by (simp add: post_job_def io_emit_def)

lemma put_job_publish_fails:
  assumes "jobValidation e b = []"
    and "Job_findOne i (u_id u) s = Some found"
    and "Job_findByIdAndUpdate e i (jobSanitized b) s = Some (Some job, s1)"
    and "j_status found \<noteq> j_status job"
    and "\<not> publish e (job_status_updated job u (j_status found))"
  shows "put_job e u i b s = (Inl (ServerError ''Server error while updating job''), s1)"
  using assms by (simp add: put_job_def io_emit_def)

lemma delete_job_publish_fails:
  assumes "Job_findOne i (u_id u) s = Some job"
    and "\<not> publish e (job_deleted job u)"
  shows "delete_job e u i s =
           (Inl (ServerError ''Server error while deleting job''), Job_findByIdAndDelete i s)"
  using assms by (simp add: delete_job_def io_emit_def)

lemma post_feedback_publish_fails:
  assumes "feedbackValidation e b = []"
    and "Feedback_create e (feedbackSanitized e b) s = Some (fb, s1)"
    and "\<not> publish e (new_feedback fb (now e))"
  shows "post_feedback e b s = (Inl (ServerError ''Server error while submitting feedback''), s1)"
  using assms by (simp add: post_feedback_def io_emit_def)


lemma find_update_first:
  "(\<And>x. P x \<Longrightarrow> P (f x)) \<Longrightarrow> find P (update_first P f xs) = map_option f (find P xs)"
  by (induction xs) auto

lemma length_remove_first:
  "x \<in> set xs \<Longrightarrow> P x \<Longrightarrow> Suc (length (remove_first P xs)) = length xs"
  by (induction xs) auto

lemma j_id_Job_set [simp]: "j_id (Job_set e b t j) = j_id j"
  and j_user_Job_set [simp]: "j_user (Job_set e b t j) = j_user j"
  by (simp_all add: Job_set_def)

lemma Job_findByIdAndUpdate_Some:
  assumes "Job_findByIdAndUpdate e i b s = Some (Some job, s1)"
  shows "\<exists>j0 t. find (\<lambda>j. j_id j = i) (jobs s) = Some j0 \<and> job = Job_set e b t j0
           \<and> s1 = s\<lparr>jobs := update_first (\<lambda>j. j_id j = i) (Job_set e b t) (jobs s)\<rparr>"
  using assms
  by (auto simp: Job_findByIdAndUpdate_def split: option.splits if_splits)

lemma Job_findByIdAndUpdate_stored:
  assumes "Job_findByIdAndUpdate e i b s = Some (Some job, s1)"
  shows "find (\<lambda>j. j_id j = i) (jobs s1) = Some job" and "emitted s1 = emitted s"
proof -
  from Job_findByIdAndUpdate_Some[OF assms] obtain j0 t where
    f: "find (\<lambda>j. j_id j = i) (jobs s) = Some j0" and j: "job = Job_set e b t j0"
    and s1: "s1 = s\<lparr>jobs := update_first (\<lambda>j. j_id j = i) (Job_set e b t) (jobs s)\<rparr>"
    by blast
  show "find (\<lambda>j. j_id j = i) (jobs s1) = Some job"
    using f j s1 by (simp add: find_update_first)
  show "emitted s1 = emitted s" using s1 by simp
qed

lemma Feedback_create_Some:
  assumes "Feedback_create e b s = Some (f, s1)"
  shows "s1 = s\<lparr>feedbacks := feedbacks s @ [f], nextId := Suc (nextId s)\<rparr>"
  using assms by (auto simp: Feedback_create_def split: option.splits if_splits)

text \<open>
  C3 (as amended). When the write of a state-changing operation has succeeded and the
  publication of its notification throws, the write stays committed (the created record
  is stored, the updated record is the stored one, the deleted record is gone), and the
  handler answers with status 500 and its generic server-error message: for
  \<^verbatim>\<open>POST /jobs\<close>, for \<^verbatim>\<open>PUT /jobs/:id\<close> when the status changes,
  for \<^verbatim>\<open>DELETE /jobs/:id\<close> and for \<^verbatim>\<open>POST /feedback\<close>.
\<close>

theorem publish_failure_is_server_error:
  "(jobValidation e b = [] \<and> Job_create e (u_id u) (jobSanitized b) s = Some (job, s1)
      \<and> \<not> publish e (job_created job u)
    \<longrightarrow> post_job e u b s = (Inl (ServerError ''Server error while creating job''), s1)
        \<and> job \<in> set (jobs s1))
   \<and> (jobValidation e b = [] \<and> Job_findOne i (u_id u) s = Some found
      \<and> Job_findByIdAndUpdate e i (jobSanitized b) s = Some (Some job', s2)
      \<and> j_status found \<noteq> j_status job'
      \<and> \<not> publish e (job_status_updated job' u (j_status found))
    \<longrightarrow> put_job e u i b s = (Inl (ServerError ''Server error while updating job''), s2)
        \<and> find (\<lambda>j. j_id j = i) (jobs s2) = Some job')
   \<and> (Job_findOne i (u_id u) s = Some found \<and> \<not> publish e (job_deleted found u)
    \<longrightarrow> delete_job e u i s =
          (Inl (ServerError ''Server error while deleting job''), Job_findByIdAndDelete i s)
        \<and> Suc (length (jobs (Job_findByIdAndDelete i s))) = length (jobs s))
   \<and> (feedbackValidation e fb = []
      \<and> Feedback_create e (feedbackSanitized e fb) s = Some (f, s3)
      \<and> \<not> publish e (new_feedback f (now e))
    \<longrightarrow> post_feedback e fb s =
          (Inl (ServerError ''Server error while submitting feedback''), s3)
        \<and> f \<in> set (feedbacks s3))"
proof (intro conjI impI)
  assume a: "jobValidation e b = [] \<and> Job_create e (u_id u) (jobSanitized b) s = Some (job, s1)
      \<and> \<not> publish e (job_created job u)"
  then show "post_job e u b s = (Inl (ServerError ''Server error while creating job''), s1)"
    using post_job_publish_fails by blast
  from a show "job \<in> set (jobs s1)" using Job_create_Some(3) by force
next
  assume a: "jobValidation e b = [] \<and> Job_findOne i (u_id u) s = Some found
      \<and> Job_findByIdAndUpdate e i (jobSanitized b) s = Some (Some job', s2)
      \<and> j_status found \<noteq> j_status job'
      \<and> \<not> publish e (job_status_updated job' u (j_status found))"
  then show "put_job e u i b s = (Inl (ServerError ''Server error while updating job''), s2)"
    using put_job_publish_fails by blast
  from a show "find (\<lambda>j. j_id j = i) (jobs s2) = Some job'"
    using Job_findByIdAndUpdate_stored(1) by blast
next
  assume a: "Job_findOne i (u_id u) s = Some found \<and> \<not> publish e (job_deleted found u)"
  then show "delete_job e u i s =
          (Inl (ServerError ''Server error while deleting job''), Job_findByIdAndDelete i s)"
    using delete_job_publish_fails by blast
  from a have "found \<in> set (jobs s)" "j_id found = i"
    using find_hit[of _ "jobs s" found] by (auto simp: Job_findOne_def)
  then show "Suc (length (jobs (Job_findByIdAndDelete i s))) = length (jobs s)"
    using length_remove_first[of found "jobs s" "\<lambda>j. j_id j = i"]
    by (simp add: Job_findByIdAndDelete_def)
next
  assume a: "feedbackValidation e fb = []
      \<and> Feedback_create e (feedbackSanitized e fb) s = Some (f, s3)
      \<and> \<not> publish e (new_feedback f (now e))"
  then show "post_feedback e fb s =
          (Inl (ServerError ''Server error while submitting feedback''), s3)"
    using post_feedback_publish_fails by blast
  from a show "f \<in> set (feedbacks s3)" using Feedback_create_Some by force
qed

text \<open>The four handlers on the sample data, with the socket server that throws.\<close>

lemma sample_create_down:
  "jobValidation env_down acme_body = []"
  "Job_create env_down (u_id alice) (jobSanitized acme_body) state0
     = Some (created_job, state0\<lparr>jobs := [created_job], nextId := 4\<rparr>)"
  by (simp_all add: eval_defs sample_defs)

lemma sample_update_down:
  "jobValidation env_down interview_body = []"
  "Job_findOne 3 (u_id alice) state1 = Some acme_job"
  "Job_findByIdAndUpdate env_down 3 (jobSanitized interview_body) state1
     = Some (Some updated_job, state1\<lparr>jobs := [updated_job, globex_job, initech_job]\<rparr>)"
  "j_status acme_job \<noteq> j_status updated_job"
  by (simp_all add: eval_defs sample_defs)

lemma sample_feedback_down:
  "feedbackValidation env_down praise_body = []"
  "Feedback_create env_down (feedbackSanitized env_down praise_body) state0
     = Some (created_feedback, state0\<lparr>feedbacks := [created_feedback], nextId := 4\<rparr>)"
  by (simp_all add: eval_defs sample_defs)

theorem publish_failure_is_server_error_witness:
  "post_job env_down alice acme_body state0 =
     (Inl (ServerError ''Server error while creating job''),
      state0\<lparr>jobs := [created_job], nextId := 4\<rparr>)
   \<and> put_job env_down alice 3 interview_body state1 =
     (Inl (ServerError ''Server error while updating job''),
      state1\<lparr>jobs := [updated_job, globex_job, initech_job]\<rparr>)
   \<and> delete_job env_down alice 3 state1 =
     (Inl (ServerError ''Server error while deleting job''),
      state1\<lparr>jobs := [globex_job, initech_job]\<rparr>)
   \<and> post_feedback env_down praise_body state0 =
     (Inl (ServerError ''Server error while submitting feedback''),
      state0\<lparr>feedbacks := [created_feedback], nextId := 4\<rparr>)"
proof -
  have down: "\<And>ev. \<not> publish env_down ev" by (simp add: env_down_def)
  have del: "Job_findByIdAndDelete 3 state1 = state1\<lparr>jobs := [globex_job, initech_job]\<rparr>"
    by (simp add: eval_defs sample_defs)
  show ?thesis
    using publish_failure_is_server_error[of env_down acme_body alice state0 created_job
        "state0\<lparr>jobs := [created_job], nextId := 4\<rparr>"]
      publish_failure_is_server_error[of env_down interview_body alice state1 _ _ 3 acme_job
        updated_job "state1\<lparr>jobs := [updated_job, globex_job, initech_job]\<rparr>"]
      publish_failure_is_server_error[of env_down _ alice state0 _ _ _ _ _ _ praise_body
        created_feedback "state0\<lparr>feedbacks := [created_feedback], nextId := 4\<rparr>"]
      sample_create_down sample_update_down sample_feedback_down down del
    by simp
qed

text \<open>C3 as stated fails: with the socket server that throws, the sample creation is
  answered with the server error of status 500 although the job is stored.\<close>

theorem creation_fails_when_publish_throws:
  "fst (post_job env_down alice acme_body state0)
     = Inl (ServerError ''Server error while creating job'')
   \<and> http_status (ServerError ''Server error while creating job'') = 500
   \<and> jobs (snd (post_job env_down alice acme_body state0)) = [created_job]
   \<and> \<not> publish env_down (job_created created_job alice)"
  by (simp add: post_job_def eval_defs sample_defs)

section \<open>The status filter of the job lists\<close>

lemma status_filter_cases:
  "status_filter None = None" "status_filter (Some []) = None"
  "status_filter (Some ''all'') = None"
  "v \<noteq> [] \<Longrightarrow> v \<noteq> ''all'' \<Longrightarrow> status_filter (Some v) = Some v"
  by (simp_all add: status_filter_def truthy_def)

text \<open>
  C4 (as amended). In \<^verbatim>\<open>GET /jobs\<close> and \<^verbatim>\<open>GET /admin/jobs\<close>, an omitted status,
  the status \<^verbatim>\<open>all\<close> and the empty string all leave the query without a status
  condition, so the three requests have the same response; every other value becomes an
  exact match on the status.
\<close>

theorem empty_status_is_no_filter:
  "get_jobs_filter u (rq\<lparr>jq_status := None\<rparr>)
     = \<lparr>q_user = Some (u_id u), q_status = None, q_search = None\<rparr>
   \<and> get_jobs e u (rq\<lparr>jq_status := Some ''all''\<rparr>) s = get_jobs e u (rq\<lparr>jq_status := None\<rparr>) s
   \<and> get_jobs e u (rq\<lparr>jq_status := Some []\<rparr>) s = get_jobs e u (rq\<lparr>jq_status := None\<rparr>) s
   \<and> q_status (admin_jobs_filter (aq\<lparr>aq_status := None\<rparr>)) = None
   \<and> get_admin_jobs e (aq\<lparr>aq_status := Some ''all''\<rparr>) s
       = get_admin_jobs e (aq\<lparr>aq_status := None\<rparr>) s
   \<and> get_admin_jobs e (aq\<lparr>aq_status := Some []\<rparr>) s
       = get_admin_jobs e (aq\<lparr>aq_status := None\<rparr>) s
   \<and> (v \<noteq> [] \<and> v \<noteq> ''all'' \<longrightarrow>
        q_status (get_jobs_filter u (rq\<lparr>jq_status := Some v\<rparr>)) = Some v
        \<and> q_status (admin_jobs_filter (aq\<lparr>aq_status := Some v\<rparr>)) = Some v)"
proof -
  have jf: "get_jobs_filter u (rq\<lparr>jq_status := Some ''all''\<rparr>)
              = get_jobs_filter u (rq\<lparr>jq_status := None\<rparr>)"
    "get_jobs_filter u (rq\<lparr>jq_status := Some []\<rparr>)
              = get_jobs_filter u (rq\<lparr>jq_status := None\<rparr>)"
    by (simp_all add: get_jobs_filter_def status_filter_cases)
  have af: "admin_jobs_filter (aq\<lparr>aq_status := Some ''all''\<rparr>)
              = admin_jobs_filter (aq\<lparr>aq_status := None\<rparr>)"
    "admin_jobs_filter (aq\<lparr>aq_status := Some []\<rparr>)
              = admin_jobs_filter (aq\<lparr>aq_status := None\<rparr>)"
    by (simp_all add: admin_jobs_filter_def status_filter_cases)
  have j: "get_jobs e u (rq\<lparr>jq_status := Some ''all''\<rparr>) s
             = get_jobs e u (rq\<lparr>jq_status := None\<rparr>) s"
    "get_jobs e u (rq\<lparr>jq_status := Some []\<rparr>) s
             = get_jobs e u (rq\<lparr>jq_status := None\<rparr>) s"
    unfolding get_jobs_def jf Let_def by simp_all
  have a: "get_admin_jobs e (aq\<lparr>aq_status := Some ''all''\<rparr>) s
             = get_admin_jobs e (aq\<lparr>aq_status := None\<rparr>) s"
    "get_admin_jobs e (aq\<lparr>aq_status := Some []\<rparr>) s
             = get_admin_jobs e (aq\<lparr>aq_status := None\<rparr>) s"
    unfolding get_admin_jobs_def af by simp_all
  show ?thesis
    unfolding j a
    by (simp add: get_jobs_filter_def admin_jobs_filter_def status_filter_cases)
qed

theorem empty_status_is_no_filter_witness:
  "get_jobs env0 alice (all_jobs\<lparr>jq_status := Some []\<rparr>) state1
     = get_jobs env0 alice all_jobs state1
   \<and> get_jobs env0 alice (all_jobs\<lparr>jq_status := Some ''all''\<rparr>) state1
     = get_jobs env0 alice all_jobs state1
   \<and> q_status (get_jobs_filter alice (all_jobs\<lparr>jq_status := Some ''interview''\<rparr>))
     = Some ''interview''"
  using empty_status_is_no_filter[of alice all_jobs env0 state1 _ "''interview''"]
  by (simp add: all_jobs_def)

lemma page_count_div:
  "page_count n L = (if L = 0 then None else Some (- (- int n div L)))"
proof -
  have "\<lceil>(of_nat n :: real) / of_int L\<rceil> = - (- int n div L)"
    using ceiling_divide_eq_div[of "int n" L, where 'a = real] by simp
  then show ?thesis by (simp add: page_count_def)
qed

lemmas query_defs = get_jobs_def get_jobs_filter_def status_filter_def truthy_def
  list_envelope_def paginate_def page_count_div sort_by_def job_matches_def job_path_def
  opt_ok_def or_default_def sort_key_ok_def Let_def

text \<open>C4 as stated fails: the empty status is not set apart from the absent one. On the
  sample state it returns both of the caller's jobs, whatever their status.\<close>

theorem empty_status_matches_everything:
  "get_jobs env0 alice (all_jobs\<lparr>jq_status := Some []\<rparr>) state1 =
     Inr \<lparr>code = 200, message = None,
          payload = \<lparr>r_count = 2, r_total = 2, r_page = 1, r_pages = Some 1,
                     r_data = [globex_job, acme_job]\<rparr>\<rparr>
   \<and> j_status globex_job = ''interview'' \<and> j_status acme_job = ''applied''"
  by (simp add: query_defs sample_defs)

section \<open>The notification of a status change\<close>

lemma put_job_ok:
  assumes "put_job e u i b s = (Inr r, s')"
  shows "\<exists>found s1. Job_findOne i (u_id u) s = Some found
           \<and> Job_findByIdAndUpdate e i (jobSanitized b) s = Some (Some (payload r), s1)
           \<and> (if j_status found \<noteq> j_status (payload r)
               then io_emit e (job_status_updated (payload r) u (j_status found)) s1 = Some s'
               else s' = s1)"
  using assms
  by (auto simp: put_job_def Let_def split: list.splits option.splits prod.splits if_splits)

text \<open>
  C6. For every successful \<^verbatim>\<open>PUT /jobs/:id\<close> on a collection with unique ids: the
  job with that id belongs to the caller and had a status \<open>A\<close> before, and it is stored
  as the response shows it, with a status \<open>B\<close>, after. If \<open>A \<noteq> B\<close>, exactly one event is published, a
  \<^verbatim>\<open>job-status-updated\<close> with \<^verbatim>\<open>oldStatus = A\<close> and \<^verbatim>\<open>newStatus = B\<close>; if
  \<open>A = B\<close>, nothing is published.
\<close>

theorem put_job_notification:
  assumes "distinct (map j_id (jobs s))" and "put_job e u i b s = (Inr r, s')"
  shows "\<exists>found. find (\<lambda>j. j_id j = i) (jobs s) = Some found \<and> j_user found = u_id u
           \<and> find (\<lambda>j. j_id j = i) (jobs s') = Some (payload r)
           \<and> (j_status found \<noteq> j_status (payload r) \<longrightarrow>
                (\<exists>msg. emitted s' = emitted s @
                   [JobStatusUpdated msg (payload r) (u_name u)
                      (j_status found) (j_status (payload r))]))
           \<and> (j_status found = j_status (payload r) \<longrightarrow> emitted s' = emitted s)"
proof -
  from put_job_ok[OF assms(2)] obtain found s1 where
    f: "Job_findOne i (u_id u) s = Some found"
    and up: "Job_findByIdAndUpdate e i (jobSanitized b) s = Some (Some (payload r), s1)"
    and em: "if j_status found \<noteq> j_status (payload r)
               then io_emit e (job_status_updated (payload r) u (j_status found)) s1 = Some s'
               else s' = s1"
    by blast
  have before: "find (\<lambda>j. j_id j = i) (jobs s) = Some found"
    by (rule find_id_of_findOne[OF assms(1) f[unfolded Job_findOne_def]])
  have owner: "j_user found = u_id u"
    using find_hit[OF f[unfolded Job_findOne_def]] by simp
  note stored1 = Job_findByIdAndUpdate_stored[OF up]
  have jobs': "jobs s' = jobs s1"
  proof (cases "j_status found \<noteq> j_status (payload r)")
    case True
    with em have "io_emit e (job_status_updated (payload r) u (j_status found)) s1 = Some s'"
      by simp
    from io_emit_Some[OF this] show ?thesis by simp
  next
    case False
    with em show ?thesis by simp
  qed
  have after: "find (\<lambda>j. j_id j = i) (jobs s') = Some (payload r)"
    using stored1(1) jobs' by simp
  have changed: "\<exists>msg. emitted s' = emitted s @
                   [JobStatusUpdated msg (payload r) (u_name u)
                      (j_status found) (j_status (payload r))]"
    if "j_status found \<noteq> j_status (payload r)"
  proof -
    from em that have "io_emit e (job_status_updated (payload r) u (j_status found)) s1 = Some s'"
      by simp
    from io_emit_Some[OF this] stored1(2) show ?thesis
      by (simp add: job_status_updated_def)
  qed
  have unchanged: "emitted s' = emitted s" if "j_status found = j_status (payload r)"
    using em that stored1(2) by simp
  from before owner after changed unchanged show ?thesis by blast
qed

text \<open>The sample update to \<^verbatim>\<open>interview\<close>, and one that keeps the status.\<close>

lemma sample_put:
  "put_job env0 alice 3 interview_body state1 =
     (Inr \<lparr>code = 200, message = Some ''Job application updated successfully'',
           payload = updated_job\<rparr>,
      state1\<lparr>jobs := [updated_job, globex_job, initech_job],
             emitted := [job_status_updated updated_job alice ''applied'']\<rparr>)"
  "put_job env0 alice 3 acme_body state1 =
     (Inr \<lparr>code = 200, message = Some ''Job application updated successfully'',
           payload = acme_job\<lparr>j_updatedAt := 1704153600000\<rparr>\<rparr>,
      state1\<lparr>jobs := [acme_job\<lparr>j_updatedAt := 1704153600000\<rparr>, globex_job, initech_job]\<rparr>)"
  "distinct (map j_id (jobs state1))"
  by (simp_all add: put_job_def Let_def eval_defs sample_defs)

theorem put_job_notification_witness:
  "distinct (map j_id (jobs state1))
   \<and> put_job env0 alice 3 interview_body state1 =
     (Inr \<lparr>code = 200, message = Some ''Job application updated successfully'',
           payload = updated_job\<rparr>,
      state1\<lparr>jobs := [updated_job, globex_job, initech_job],
             emitted := [job_status_updated updated_job alice ''applied'']\<rparr>)
   \<and> find (\<lambda>j. j_id j = 3) (jobs state1) = Some acme_job
   \<and> j_status acme_job = ''applied'' \<and> j_status updated_job = ''interview''
   \<and> (\<exists>msg. emitted (state1\<lparr>jobs := [updated_job, globex_job, initech_job],
             emitted := [job_status_updated updated_job alice ''applied'']\<rparr>)
         = emitted state1 @ [JobStatusUpdated msg updated_job ''Alice'' ''applied'' ''interview''])
   \<and> put_job env0 alice 3 acme_body state1 =
     (Inr \<lparr>code = 200, message = Some ''Job application updated successfully'',
           payload = acme_job\<lparr>j_updatedAt := 1704153600000\<rparr>\<rparr>,
      state1\<lparr>jobs := [acme_job\<lparr>j_updatedAt := 1704153600000\<rparr>, globex_job, initech_job]\<rparr>)
   \<and> emitted (state1\<lparr>jobs := [acme_job\<lparr>j_updatedAt := 1704153600000\<rparr>, globex_job,
                                  initech_job]\<rparr>) = emitted state1"
  using put_job_notification[OF sample_put(3) sample_put(1)]
    put_job_notification[OF sample_put(3) sample_put(2)] sample_put
  by (simp add: Job_findOne_def sample_defs)

section \<open>Ownership of jobs\<close>

lemma put_job_unfound:
  assumes "Job_findOne i (u_id u) s = None"
  shows "put_job e u i b s =
           (if jobValidation e b = [] then Inl (NotFound ''Job not found'')
            else Inl (ValidationFailed (jobValidation e b)), s)"
  using assms by (cases "jobValidation e b") (simp_all add: put_job_def)

text \<open>
  C8 (as amended). Let the job with id \<open>i\<close> belong to another user than the caller \<open>u\<close>,
  in a collection with unique ids. \<^verbatim>\<open>GET /jobs/:id\<close> and \<^verbatim>\<open>DELETE /jobs/:id\<close> answer
  404 "Job not found" and change nothing. \<^verbatim>\<open>PUT /jobs/:id\<close> answers 404 "Job not found"
  when the body passes validation and 400 with the validation errors when it does not,
  and changes nothing. Each of the three responses is the one the same request gets when
  no job has the id \<open>i\<close>; none is a 403.
\<close>

theorem foreign_job_not_found:
  assumes "distinct (map j_id (jobs s))"
    and "find (\<lambda>j. j_id j = i) (jobs s) = Some j"
    and "j_user j \<noteq> u_id u"
  shows "get_job u i s = Inl (NotFound ''Job not found'')
       \<and> delete_job e u i s = (Inl (NotFound ''Job not found''), s)
       \<and> put_job e u i b s =
            (if jobValidation e b = [] then Inl (NotFound ''Job not found'')
             else Inl (ValidationFailed (jobValidation e b)), s)
       \<and> get_job u i (s\<lparr>jobs := filter (\<lambda>k. j_id k \<noteq> i) (jobs s)\<rparr>) = get_job u i s
       \<and> fst (delete_job e u i (s\<lparr>jobs := filter (\<lambda>k. j_id k \<noteq> i) (jobs s)\<rparr>))
           = fst (delete_job e u i s)
       \<and> fst (put_job e u i b (s\<lparr>jobs := filter (\<lambda>k. j_id k \<noteq> i) (jobs s)\<rparr>))
           = fst (put_job e u i b s)"
proof -
  let ?s0 = "s\<lparr>jobs := filter (\<lambda>k. j_id k \<noteq> i) (jobs s)\<rparr>"
  have here: "Job_findOne i (u_id u) s = None"
    unfolding Job_findOne_def by (rule findOne_foreign[OF assms])
  have gone: "Job_findOne i (u_id u) ?s0 = None"
    unfolding Job_findOne_def by (simp add: findOne_absent)
  have g: "get_job u i s = Inl (NotFound ''Job not found'')"
    and g0: "get_job u i ?s0 = Inl (NotFound ''Job not found'')"
    using here gone by (simp_all add: get_job_def)
  have d: "delete_job e u i s = (Inl (NotFound ''Job not found''), s)"
    and d0: "delete_job e u i ?s0 = (Inl (NotFound ''Job not found''), ?s0)"
    using here gone by (simp_all add: delete_job_def)
  note p = put_job_unfound[OF here, of e b] and p0 = put_job_unfound[OF gone, of e b]
  show ?thesis
    unfolding g g0 d d0 p p0 by simp
qed

lemma sample_foreign:
  "distinct (map j_id (jobs state1))"
  "find (\<lambda>j. j_id j = 5) (jobs state1) = Some initech_job"
  "j_user initech_job \<noteq> u_id alice"
  "jobValidation env0 interview_body = []"
  by (simp_all add: eval_defs sample_defs)

theorem foreign_job_not_found_witness:
  "distinct (map j_id (jobs state1))
   \<and> find (\<lambda>j. j_id j = 5) (jobs state1) = Some initech_job
   \<and> j_user initech_job \<noteq> u_id alice
   \<and> get_job alice 5 state1 = Inl (NotFound ''Job not found'')
   \<and> delete_job env0 alice 5 state1 = (Inl (NotFound ''Job not found''), state1)
   \<and> put_job env0 alice 5 interview_body state1 = (Inl (NotFound ''Job not found''), state1)"
  using foreign_job_not_found[OF sample_foreign(1,2,3), of env0 interview_body] sample_foreign
  by simp

text \<open>C8 as stated fails for \<^verbatim>\<open>PUT\<close>: on another user's job, a body that fails validation
  is answered with 400, not 404.\<close>

theorem foreign_put_invalid_body:
  "find (\<lambda>j. j_id j = 5) (jobs state1) = Some initech_job
   \<and> j_user initech_job \<noteq> u_id alice
   \<and> put_job env0 alice 5 empty_body state1 =
       (Inl (ValidationFailed
          [''Company name is required and must not exceed 100 characters'',
           ''Position is required and must not exceed 100 characters'',
           ''Please provide a valid date'']), state1)
   \<and> http_status (ValidationFailed
          [''Company name is required and must not exceed 100 characters'',
           ''Position is required and must not exceed 100 characters'',
           ''Please provide a valid date'']) = 400"
  by (simp add: put_job_def eval_defs sample_defs)

section \<open>Toggling a user's active flag\<close>

lemma toggle_status_found:
  assumes "find (\<lambda>u. u_id u = i) (users s) = Some usr"
  shows "\<exists>r s'. toggle_status e i s = (Inr r, s')
           \<and> payload r = usr\<lparr>u_isActive := \<not> u_isActive usr, u_updatedAt := now e\<rparr>
           \<and> find (\<lambda>u. u_id u = i) (users s') = Some (payload r)"
proof -
  let ?saved = "usr\<lparr>u_isActive := \<not> u_isActive usr, u_updatedAt := now e\<rparr>"
  from find_hit[OF assms] have "u_id ?saved = i" by simp
  then have "find (\<lambda>u. u_id u = i) (update_first (\<lambda>u. u_id u = i) (\<lambda>_. ?saved) (users s))
               = Some ?saved"
    using assms by (simp add: find_update_first)
  then show ?thesis using assms by (simp add: toggle_status_def Let_def)
qed

text \<open>
  C9. For an existing user, \<^verbatim>\<open>PUT /admin/users/:id/toggle-status\<close> succeeds and stores
  the user with \<^verbatim>\<open>isActive\<close> negated; a second call (at any later time) succeeds as well
  and stores the user with \<^verbatim>\<open>isActive\<close> at its original value.
\<close>

theorem toggle_status_twice:
  assumes "find (\<lambda>u. u_id u = i) (users s) = Some usr"
  shows "\<exists>r1 s1 r2 s2.
           toggle_status e1 i s = (Inr r1, s1) \<and> toggle_status e2 i s1 = (Inr r2, s2)
           \<and> find (\<lambda>u. u_id u = i) (users s1) = Some (payload r1)
           \<and> u_isActive (payload r1) = (\<not> u_isActive usr)
           \<and> find (\<lambda>u. u_id u = i) (users s2) = Some (payload r2)
           \<and> u_isActive (payload r2) = u_isActive usr"
proof -
  from toggle_status_found[OF assms, of e1] obtain r1 s1 where
    t1: "toggle_status e1 i s = (Inr r1, s1)"
    and p1: "payload r1 = usr\<lparr>u_isActive := \<not> u_isActive usr, u_updatedAt := now e1\<rparr>"
    and f1: "find (\<lambda>u. u_id u = i) (users s1) = Some (payload r1)"
    by blast
  from toggle_status_found[OF f1, of e2] obtain r2 s2 where
    t2: "toggle_status e2 i s1 = (Inr r2, s2)"
    and p2: "payload r2 = (payload r1)\<lparr>u_isActive := \<not> u_isActive (payload r1),
                                        u_updatedAt := now e2\<rparr>"
    and f2: "find (\<lambda>u. u_id u = i) (users s2) = Some (payload r2)"
    by blast
  have "u_isActive (payload r1) = (\<not> u_isActive usr)" using p1 by simp
  moreover have "u_isActive (payload r2) = u_isActive usr" using p1 p2 by simp
  ultimately show ?thesis using t1 t2 f1 f2 by blast
qed

theorem toggle_status_twice_witness:
  "find (\<lambda>u. u_id u = 1) (users state1) = Some alice
   \<and> u_isActive alice
   \<and> (\<exists>r1 s1 r2 s2.
           toggle_status env0 1 state1 = (Inr r1, s1) \<and> toggle_status env0 1 s1 = (Inr r2, s2)
           \<and> find (\<lambda>u. u_id u = 1) (users s1) = Some (payload r1)
           \<and> \<not> u_isActive (payload r1)
           \<and> find (\<lambda>u. u_id u = 1) (users s2) = Some (payload r2)
           \<and> u_isActive (payload r2))"
proof -
  have f: "find (\<lambda>u. u_id u = 1) (users state1) = Some alice"
    by (simp add: sample_defs)
  have a: "u_isActive alice" by (simp add: alice_def)
  from toggle_status_twice[OF f, of env0 env0] a f show ?thesis by simp
qed

section \<open>Updating the status of a feedback record\<close>

lemma filter_update_first:
  "(\<And>x. P x \<Longrightarrow> P (f x)) \<Longrightarrow>
   filter (\<lambda>x. \<not> P x) (update_first P f xs) = filter (\<lambda>x. \<not> P x) xs"
  by (induction xs) auto

lemma length_update_first: "length (update_first P f xs) = length xs"
  by (induction xs) auto

text \<open>
  C10 (as amended). For an existing feedback record and a status among \<^verbatim>\<open>pending\<close>,
  \<^verbatim>\<open>reviewed\<close>, \<^verbatim>\<open>resolved\<close>, \<^verbatim>\<open>PUT /admin/feedback/:id/status\<close> succeeds; the stored
  record is the old one with \<^verbatim>\<open>status\<close> set and \<^verbatim>\<open>updatedAt\<close> refreshed, so its id,
  name, email, feedback text, rating, category, \<^verbatim>\<open>isPublic\<close> and \<^verbatim>\<open>createdAt\<close> are
  unchanged; the records with other ids and the other collections are unchanged. On a
  status outside the three (or none) the response is 400, on an id that matches no record
  it is 404, and in both cases the state is unchanged.
\<close>

theorem feedback_status_frame:
  "(v \<in> set feedback_statuses \<and> find (\<lambda>f. f_id f = i) (feedbacks s) = Some f \<longrightarrow>
      (\<exists>f' s'. put_feedback_status e i (Some v) s =
                  (Inr \<lparr>code = 200, message = Some ''Feedback status updated successfully'',
                        payload = f'\<rparr>, s')
         \<and> f' = f\<lparr>f_status := v, f_updatedAt := now e\<rparr>
         \<and> f_id f' = f_id f \<and> f_name f' = f_name f \<and> f_email f' = f_email f
         \<and> f_feedback f' = f_feedback f \<and> f_rating f' = f_rating f
         \<and> f_category f' = f_category f \<and> f_isPublic f' = f_isPublic f
         \<and> f_createdAt f' = f_createdAt f
         \<and> find (\<lambda>f. f_id f = i) (feedbacks s') = Some f'
         \<and> filter (\<lambda>g. f_id g \<noteq> i) (feedbacks s') = filter (\<lambda>g. f_id g \<noteq> i) (feedbacks s)
         \<and> length (feedbacks s') = length (feedbacks s)
         \<and> s' = s\<lparr>feedbacks := feedbacks s'\<rparr>))
   \<and> (st \<notin> Some ` set feedback_statuses \<longrightarrow>
        put_feedback_status e i st s = (Inl (BadRequest ''Invalid status''), s))
   \<and> (v \<in> set feedback_statuses \<and> find (\<lambda>f. f_id f = i) (feedbacks s) = None \<longrightarrow>
        put_feedback_status e i (Some v) s = (Inl (NotFound ''Feedback not found''), s))"
proof (intro conjI impI)
  assume a: "v \<in> set feedback_statuses \<and> find (\<lambda>f. f_id f = i) (feedbacks s) = Some f"
  let ?upd = "\<lambda>f. f\<lparr>f_status := v, f_updatedAt := now e\<rparr>"
  let ?s' = "s\<lparr>feedbacks := update_first (\<lambda>f. f_id f = i) ?upd (feedbacks s)\<rparr>"
  have r: "put_feedback_status e i (Some v) s =
             (Inr \<lparr>code = 200, message = Some ''Feedback status updated successfully'',
                   payload = ?upd f\<rparr>, ?s')"
    using a by (simp add: put_feedback_status_def)
  have keep: "\<And>x. f_id x = i \<Longrightarrow> f_id (?upd x) = i" by simp
  have st: "find (\<lambda>f. f_id f = i) (feedbacks ?s') = Some (?upd f)"
    using a find_update_first[of "\<lambda>f. f_id f = i" ?upd "feedbacks s"] by simp
  have others: "filter (\<lambda>g. f_id g \<noteq> i) (feedbacks ?s') = filter (\<lambda>g. f_id g \<noteq> i) (feedbacks s)"
    using filter_update_first[of "\<lambda>f. f_id f = i" ?upd "feedbacks s"] by simp
  have len: "length (feedbacks ?s') = length (feedbacks s)"
    by (simp add: length_update_first)
  show "\<exists>f' s'. put_feedback_status e i (Some v) s =
                  (Inr \<lparr>code = 200, message = Some ''Feedback status updated successfully'',
                        payload = f'\<rparr>, s')
         \<and> f' = f\<lparr>f_status := v, f_updatedAt := now e\<rparr>
         \<and> f_id f' = f_id f \<and> f_name f' = f_name f \<and> f_email f' = f_email f
         \<and> f_feedback f' = f_feedback f \<and> f_rating f' = f_rating f
         \<and> f_category f' = f_category f \<and> f_isPublic f' = f_isPublic f
         \<and> f_createdAt f' = f_createdAt f
         \<and> find (\<lambda>f. f_id f = i) (feedbacks s') = Some f'
         \<and> filter (\<lambda>g. f_id g \<noteq> i) (feedbacks s') = filter (\<lambda>g. f_id g \<noteq> i) (feedbacks s)
         \<and> length (feedbacks s') = length (feedbacks s)
         \<and> s' = s\<lparr>feedbacks := feedbacks s'\<rparr>"
    apply (rule exI[of _ "?upd f"], rule exI[of _ ?s'])
    using r st others len by simp
next
  assume "st \<notin> Some ` set feedback_statuses"
  then show "put_feedback_status e i st s = (Inl (BadRequest ''Invalid status''), s)"
    by (cases st) (auto simp: put_feedback_status_def)
next
  assume "v \<in> set feedback_statuses \<and> find (\<lambda>f. f_id f = i) (feedbacks s) = None"
  then show "put_feedback_status e i (Some v) s = (Inl (NotFound ''Feedback not found''), s)"
    by (simp add: put_feedback_status_def)
qed

theorem feedback_status_frame_witness:
  "''reviewed'' \<in> set feedback_statuses
   \<and> find (\<lambda>f. f_id f = 6) (feedbacks state1) = Some praise
   \<and> (\<exists>s'. put_feedback_status env0 6 (Some ''reviewed'') state1 =
              (Inr \<lparr>code = 200, message = Some ''Feedback status updated successfully'',
                    payload = praise\<lparr>f_status := ''reviewed'', f_updatedAt := now env0\<rparr>\<rparr>, s')
          \<and> find (\<lambda>f. f_id f = 6) (feedbacks s')
               = Some (praise\<lparr>f_status := ''reviewed'', f_updatedAt := now env0\<rparr>)
          \<and> filter (\<lambda>g. f_id g \<noteq> 6) (feedbacks s') = [gripe])
   \<and> Some ''done'' \<notin> Some ` set feedback_statuses
   \<and> put_feedback_status env0 6 (Some ''done'') state1
       = (Inl (BadRequest ''Invalid status''), state1)
   \<and> find (\<lambda>f. f_id f = 9) (feedbacks state1) = None
   \<and> put_feedback_status env0 9 (Some ''reviewed'') state1
       = (Inl (NotFound ''Feedback not found''), state1)"
proof -
  have h: "''reviewed'' \<in> set feedback_statuses"
    "find (\<lambda>f. f_id f = 6) (feedbacks state1) = Some praise"
    "Some ''done'' \<notin> Some ` set feedback_statuses"
    "find (\<lambda>f. f_id f = 9) (feedbacks state1) = None"
    "filter (\<lambda>g. f_id g \<noteq> 6) (feedbacks state1) = [gripe]"
    by (simp_all add: feedback_statuses_def sample_defs)
  from feedback_status_frame[of "''reviewed''" 6 state1 praise env0 "Some ''done''"]
    feedback_status_frame[of "''reviewed''" 9 state1 praise env0 "Some ''done''"] h
  show ?thesis by auto
qed

text \<open>C10 as stated fails: the update changes a second field of the record. On the sample
  state the stored record has a new \<^verbatim>\<open>updatedAt\<close> beside its new status.\<close>

theorem status_update_refreshes_updatedAt:
  "feedbacks (snd (put_feedback_status env0 6 (Some ''reviewed'') state1))
     = [praise\<lparr>f_status := ''reviewed'', f_updatedAt := 1704153600000\<rparr>, gripe]
   \<and> f_updatedAt praise = 600"
  by (simp add: put_feedback_status_def feedback_statuses_def sample_defs)

section \<open>Sorting keeps the documents\<close>



lemma set_insort_by: "set (insort_by le x xs) = insert x (set xs)"
  by (induction xs) auto

lemma set_sort_by: "set (sort_by key dir xs) = set xs"
  unfolding sort_by_def by (induction xs) (auto simp: set_insort_by)

lemma distinct_insort_by:
  "distinct (map f (insort_by le x xs)) = (f x \<notin> f ` set xs \<and> distinct (map f xs))"
  by (induction xs) (auto simp: set_insort_by)

lemma distinct_sort_by: "distinct (map f (sort_by key dir xs)) = distinct (map f xs)"
  unfolding sort_by_def
  by (induction xs) (auto simp: distinct_insort_by set_sort_by[unfolded sort_by_def])

section \<open>Pagination\<close>




lemma get_jobs_bad_sort_key:
  assumes "\<not> sort_key_ok e (or_default ''createdAt'' (jq_sortBy rq))"
  shows "get_jobs e u rq s = Inl (ServerError ''Server error while fetching jobs'')"
  using assms by (simp add: get_jobs_def Let_def)

lemma get_admin_jobs_bad_search:
  assumes "\<not> opt_ok (regexValid e) (q_search (admin_jobs_filter aq))"
  shows "get_admin_jobs e aq s = Inl (ServerError ''Server error while fetching jobs'')"
  using assms by (simp add: get_admin_jobs_def)

lemma get_jobs_empty_sort_key:
  "get_jobs e u (rq\<lparr>jq_sortBy := Some []\<rparr>) s
     = Inl (ServerError ''Server error while fetching jobs'')"
  by (rule get_jobs_bad_sort_key) (simp add: sort_key_ok_def or_default_def)











lemma sample_empty_sort_key:
  "get_jobs env0 alice (all_jobs\<lparr>jq_sortBy := Some [], jq_page := Some 1, jq_limit := Some 1\<rparr>)
     state1 = Inl (ServerError ''Server error while fetching jobs'')"
  by (simp add: get_jobs_def sort_key_ok_def or_default_def Let_def)

section \<open>Histograms\<close>

lemma map_of_assign_counts:
  "distinct (map fst stats) \<Longrightarrow>
   map_of (assign_counts obj stats) k =
     (case map_of stats k of Some c \<Rightarrow> Some c | None \<Rightarrow> map_of obj k)"
proof (induction stats arbitrary: obj)
  case Nil
  then show ?case by simp
next
  case (Cons p stats)
  obtain k' c' where p: "p = (k', c')" by (cases p)
  from Cons.prems p have nk: "k' \<notin> fst ` set stats" and d: "distinct (map fst stats)"
    by auto
  have "map_of stats k' = None" using nk by (simp add: map_of_eq_None_iff)
  then show ?case using Cons.IH[OF d, of "AList.update k' c' obj"] p
    by (auto simp: update_conv' split: option.splits)
qed

lemma distinct_group_count: "distinct (map fst (group_count ks))"
  by (simp add: group_count_def comp_def)

lemma map_of_group_count:
  "map_of (group_count ks) k = (if k \<in> set ks then Some (count_list ks k) else None)"
  unfolding group_count_def by (auto simp: map_of_map_restrict restrict_map_def)

lemma map_of_same_set:
  assumes "distinct (map fst xs)" and "distinct (map fst ys)" and "set ys = set xs"
  shows "map_of ys k = map_of xs k"
proof (cases "map_of xs k")
  case None
  then have "k \<notin> fst ` set ys" using assms(3) by (simp add: map_of_eq_None_iff)
  then have "map_of ys k = None" by (simp add: map_of_eq_None_iff)
  then show ?thesis using None by simp
next
  case (Some v)
  then have "(k, v) \<in> set ys" using assms(1,3) by simp
  then show ?thesis using Some assms(2) by simp
qed

lemma map_of_rating_stats:
  "map_of (rating_stats s) r =
     (if r \<in> f_rating ` set (feedbacks s)
      then Some (count_list (map f_rating (feedbacks s)) r) else None)"
proof -
  let ?g = "group_count (map f_rating (feedbacks s))"
  have "map_of (rating_stats s) r = map_of ?g r"
    unfolding rating_stats_def
    by (rule map_of_same_set)
      (simp_all add: distinct_group_count distinct_sort_by set_sort_by)
  then show ?thesis by (simp add: map_of_group_count)
qed

lemma distinct_rating_stats: "distinct (map fst (rating_stats s))"
  by (simp add: rating_stats_def distinct_sort_by distinct_group_count)

text \<open>
  C2 (as amended). The status histogram of \<^verbatim>\<open>GET /jobs/stats/overview\<close> has each of the
  five statuses, and the rating histogram of \<^verbatim>\<open>GET /feedback/stats\<close> each of the
  ratings 1 to 5, with the number of its occurrences, which is 0 for a value that does not
  occur. The two distributions of \<^verbatim>\<open>GET /admin/stats\<close> are the grouped counts as the
  database returns them: a value that occurs has its number of occurrences, and a value
  that does not occur has no entry.
\<close>

theorem histograms_by_endpoint:
  "(k \<in> set job_statuses \<longrightarrow>
      map_of (statusStats (payload (get_jobs_stats u s))) k
        = Some (count_list (map j_status (filter (\<lambda>j. j_user j = u_id u) (jobs s))) k))
   \<and> (r \<in> {1, 2, 3, 4, 5} \<longrightarrow>
      map_of (ratingDistribution (payload (get_feedback_stats s))) r
        = Some (count_list (map f_rating (feedbacks s)) r))
   \<and> map_of (jobStatusStats (payload (get_admin_stats s))) k
        = (if k \<in> j_status ` set (jobs s)
           then Some (count_list (map j_status (jobs s)) k) else None)
   \<and> map_of (feedbackRatingStats (payload (get_admin_stats s))) r
        = (if r \<in> f_rating ` set (feedbacks s)
           then Some (count_list (map f_rating (feedbacks s)) r) else None)"
proof (intro conjI impI)
  assume k: "k \<in> set job_statuses"
  let ?mine = "filter (\<lambda>j. j_user j = u_id u) (jobs s)"
  have seed: "map_of [(''applied'', 0::nat), (''interview'', 0), (''offer'', 0),
                      (''rejected'', 0), (''accepted'', 0)] k = Some 0"
    using k by (auto simp: job_statuses_def)
  have "map_of (statusStats (payload (get_jobs_stats u s))) k =
          (case map_of (group_count (map j_status ?mine)) k of
             Some c \<Rightarrow> Some c | None \<Rightarrow> Some 0)"
    using seed
    by (simp add: get_jobs_stats_def Let_def map_of_assign_counts[OF distinct_group_count]
        del: map_of.simps split: option.splits)
  also have "\<dots> = Some (count_list (map j_status ?mine) k)"
    by (simp add: map_of_group_count count_list_0_iff del: set_map)
  finally show "map_of (statusStats (payload (get_jobs_stats u s))) k
        = Some (count_list (map j_status ?mine) k)" .
next
  assume r: "r \<in> {1, 2, 3, 4, 5}"
  have seed: "map_of [(5, 0::nat), (4, 0), (3, 0), (2, 0), (1::int, 0)] r = Some 0"
    using r by auto
  have "map_of (ratingDistribution (payload (get_feedback_stats s))) r =
          (case map_of (rating_stats s) r of Some c \<Rightarrow> Some c | None \<Rightarrow> Some 0)"
    using seed
    by (simp add: get_feedback_stats_def map_of_assign_counts[OF distinct_rating_stats]
        del: map_of.simps split: option.splits)
  also have "\<dots> = Some (count_list (map f_rating (feedbacks s)) r)"
    by (simp add: map_of_rating_stats count_list_0_iff)
  finally show "map_of (ratingDistribution (payload (get_feedback_stats s))) r
        = Some (count_list (map f_rating (feedbacks s)) r)" .
next
  show "map_of (jobStatusStats (payload (get_admin_stats s))) k
        = (if k \<in> j_status ` set (jobs s)
           then Some (count_list (map j_status (jobs s)) k) else None)"
    by (simp add: get_admin_stats_def map_of_group_count)
next
  show "map_of (feedbackRatingStats (payload (get_admin_stats s))) r
        = (if r \<in> f_rating ` set (feedbacks s)
           then Some (count_list (map f_rating (feedbacks s)) r) else None)"
    by (simp add: get_admin_stats_def map_of_rating_stats)
qed

text \<open>On the sample state: Alice has no job with the status \<^verbatim>\<open>offer\<close>, and no feedback
  has the rating 3.\<close>

lemma sample_counts:
  "count_list (map j_status (filter (\<lambda>j. j_user j = u_id alice) (jobs state1))) ''offer'' = 0"
  "count_list (map f_rating (feedbacks state1)) 3 = 0"
  "''offer'' \<notin> j_status ` set (jobs state1)"
  "3 \<notin> f_rating ` set (feedbacks state1)"
  by (simp_all add: sample_defs)

theorem histograms_by_endpoint_witness:
  "''offer'' \<in> set job_statuses \<and> (3 :: int) \<in> {1, 2, 3, 4, 5}
   \<and> map_of (statusStats (payload (get_jobs_stats alice state1))) ''offer'' = Some 0
   \<and> map_of (ratingDistribution (payload (get_feedback_stats state1))) 3 = Some 0
   \<and> map_of (jobStatusStats (payload (get_admin_stats state1))) ''offer'' = None
   \<and> map_of (feedbackRatingStats (payload (get_admin_stats state1))) 3 = None"
proof -
  have k: "''offer'' \<in> set job_statuses" by (simp add: job_statuses_def)
  have r: "(3 :: int) \<in> {1, 2, 3, 4, 5}" by simp
  from histograms_by_endpoint[of "''offer''" alice state1 3] k r sample_counts
  show ?thesis by simp
qed

text \<open>C2 as stated fails for the admin endpoint: on the sample state its two distributions
  list only the statuses and ratings that occur.\<close>

theorem admin_stats_not_zero_filled:
  "jobStatusStats (payload (get_admin_stats state1)) = [(''interview'', 1), (''applied'', 2)]
   \<and> feedbackRatingStats (payload (get_admin_stats state1)) = [(5, 1), (2, 1)]"
  by (simp add: get_admin_stats_def rating_stats_def group_count_def sort_by_def sample_defs)

section \<open>The average rating\<close>

lemma avg_or_zero_mean:
  "avg_or_zero (avg_group rs) =
     (if rs = [] then 0 else of_int (sum_list rs) / of_nat (length rs))"
  by (simp add: avg_or_zero_def avg_group_def)

text \<open>
  C7. The average rating that \<^verbatim>\<open>GET /feedback/stats\<close> returns is 0 when there is no
  feedback and the arithmetic mean of all ratings otherwise, and so is the average that
  \<^verbatim>\<open>GET /admin/stats\<close> computes; the dashboard reports that average rounded to one
  decimal.
\<close>

theorem average_rating_is_mean:
  "averageRating (payload (get_feedback_stats s)) =
     (if feedbacks s = [] then 0
      else of_int (sum_list (map f_rating (feedbacks s))) / of_nat (length (feedbacks s)))
   \<and> admin_averageRating s =
     (if feedbacks s = [] then 0
      else of_int (sum_list (map f_rating (feedbacks s))) / of_nat (length (feedbacks s)))
   \<and> a_averageRating (payload (get_admin_stats s)) = round1 (admin_averageRating s)"
  by (simp add: get_feedback_stats_def admin_averageRating_def get_admin_stats_def
      avg_or_zero_mean)

theorem average_rating_is_mean_witness:
  "averageRating (payload (get_feedback_stats state0)) = 0
   \<and> averageRating (payload (get_feedback_stats state1)) = 7 / 2
   \<and> admin_averageRating state1 = 7 / 2
   \<and> a_averageRating (payload (get_admin_stats state1)) = 7 / 2"
proof -
  have f: "feedbacks state0 = []" "feedbacks state1 = [praise, gripe]"
    "f_rating praise = 5" "f_rating gripe = 2"
    by (simp_all add: sample_defs)
  have r: "round1 (7 / 2) = 7 / 2" by (simp add: round1_def)
  note t0 = average_rating_is_mean[of state0] and t1 = average_rating_is_mean[of state1]
  have a0: "averageRating (payload (get_feedback_stats state0)) = 0"
    using t0 f by simp
  have a1: "averageRating (payload (get_feedback_stats state1)) = 7 / 2"
    using t1 f by simp
  have a2: "admin_averageRating state1 = 7 / 2"
    using t1 f by simp
  have a3: "a_averageRating (payload (get_admin_stats state1)) = round1 (admin_averageRating state1)"
    using t1 by simp
  show ?thesis by (simp only: a0 a1 a2 a3 r simp_thms)
qed

end
